theory Spec2Isabelle
  imports Main "HOL-Library.Word"
begin

section \<open>JavaScript values used by the bot\<close>

text \<open>
  A JavaScript string is a sequence of UTF-16 code units; \<open>substring\<close> and \<open>length\<close>
  count code units. String literals of the source that matter to a property are embedded
  with \<open>ascii\<close>.
\<close>

type_synonym jsstring = "16 word list"

definition ascii :: "string \<Rightarrow> jsstring" where
  "ascii s = map (\<lambda>c. of_nat (of_char c)) s"

text \<open>\<open>s.substring(0, n)\<close>: the first \<open>n\<close> code units, all of \<open>s\<close> when it is shorter.\<close>

definition substring0 :: "jsstring \<Rightarrow> nat \<Rightarrow> jsstring" where
  "substring0 s n = take n s"

text \<open>
  Truthiness of an optional string field (\<open>!x\<close>, \<open>x || y\<close>): \<open>undefined\<close>, \<open>null\<close>
  (both \<open>None\<close>) and the empty string are falsy.
\<close>

definition truthy :: "jsstring option \<Rightarrow> bool" where
  "truthy v = (case v of None \<Rightarrow> False | Some s \<Rightarrow> s \<noteq> [])"

subsection \<open>Numbers\<close>

text \<open>
  A JavaScript Number is an IEEE-754 double. The bot only meets non-negative integral
  values (a base fee and its multiple), so a finite Number is modelled by the natural
  number it denotes and \<open>NaN\<close> by \<open>None\<close>. \<open>round_double v\<close> is the double nearest to the
  integer \<open>v\<close> (ties to even), as every arithmetic result and every parsed literal is
  rounded; below \<open>2 ^ 53\<close> every integer is a double. (Values from \<open>2 ^ 1024\<close> on would
  overflow to \<open>Infinity\<close>; no computation here reaches them from a finite base fee.)
\<close>

type_synonym jsnum = "nat option"

fun bit_length :: "nat \<Rightarrow> nat" where
  "bit_length n = (if n = 0 then 0 else Suc (bit_length (n div 2)))"

declare bit_length.simps [simp del]

definition round_double :: "nat \<Rightarrow> nat" where
  "round_double v =
     (if v < 2 ^ 53 then v
      else let e = bit_length v - 53;
               q = v div 2 ^ e;
               r = v mod 2 ^ e;
               h = 2 ^ (e - 1)
           in (if r < h \<or> (r = h \<and> even q) then q else q + 1) * 2 ^ e)"

definition digit :: "nat \<Rightarrow> 16 word" where
  "digit d = of_nat (48 + d)"

definition is_digit :: "16 word \<Rightarrow> bool" where
  "is_digit c = (48 \<le> unat c \<and> unat c \<le> 57)"

definition digit_val :: "16 word \<Rightarrow> nat" where
  "digit_val c = unat c - 48"

fun decimal :: "nat \<Rightarrow> jsstring" where
  "decimal n = (if n < 10 then [digit n] else decimal (n div 10) @ [digit (n mod 10)])"

declare decimal.simps [simp del]

text \<open>
  \<open>Number.prototype.toString\<close> prints the shortest decimal numeral that reads back as
  the same double: the digits \<open>s\<close> with \<open>k\<close> as small as possible such that
  \<open>s * 10 ^ (n - k)\<close> rounds to the value, the closest such \<open>s\<close> when there are several.
  \<open>shortest_from x m\<close> tries the multiples of \<open>10 ^ m\<close> next to \<open>x\<close>, for \<open>m\<close> downwards;
  \<open>shortest x\<close> is the value \<open>s * 10 ^ (n - k)\<close> that is printed.
\<close>

fun shortest_from :: "nat \<Rightarrow> nat \<Rightarrow> nat" where
  "shortest_from x 0 = x"
| "shortest_from x (Suc m) =
     (let p = 10 ^ Suc m;
          lo = (x div p) * p;
          hi = lo + p;
          okl = (round_double lo = x);
          okh = (round_double hi = x)
      in if okl \<and> okh then
           (if x - lo < hi - x then lo
            else if hi - x < x - lo then hi
            else if even (x div p) then lo else hi)
         else if okl then lo
         else if okh then hi
         else shortest_from x m)"

definition shortest :: "nat \<Rightarrow> nat" where
  "shortest x = shortest_from x (length (decimal x) - 1)"

definition strip_zeros :: "jsstring \<Rightarrow> jsstring" where
  "strip_zeros ds = rev (dropWhile (\<lambda>c. c = digit 0) (rev ds))"

text \<open>From \<open>10 ^ 21\<close> on the numeral is printed in exponent notation, \<open>d.ddde+N\<close>.\<close>

definition exponent_form :: "nat \<Rightarrow> jsstring" where
  "exponent_form v =
     (let ds = decimal v; s = strip_zeros ds
      in (case s of [] \<Rightarrow> [] | d # rest \<Rightarrow> d # (if rest = [] then [] else ascii ''.'' @ rest))
         @ ascii ''e+'' @ decimal (length ds - 1))"

definition js_toString :: "jsnum \<Rightarrow> jsstring" where
  "js_toString x =
     (case x of
        None \<Rightarrow> ascii ''NaN''
      | Some n \<Rightarrow> (let v = shortest n in if v < 10 ^ 21 then decimal v else exponent_form v))"

text \<open>
  \<open>parseInt\<close> on a string: the longest prefix of decimal digits, \<open>NaN\<close> when there is
  none. (Leading white space, a sign and a \<open>0x\<close> prefix are left out: \<open>toString\<close> of a
  non-negative Number, the only argument \<open>parseInt\<close> gets here, produces none of them.)
\<close>

fun parse_digits :: "nat \<Rightarrow> jsstring \<Rightarrow> nat" where
  "parse_digits acc [] = acc"
| "parse_digits acc (c # cs) =
     (if is_digit c then parse_digits (10 * acc + digit_val c) cs else acc)"

definition js_parseInt :: "jsstring \<Rightarrow> jsnum" where
  "js_parseInt s =
     (case s of
        [] \<Rightarrow> None
      | c # cs \<Rightarrow> if is_digit c then Some (round_double (parse_digits 0 s)) else None)"

definition js_mul :: "jsnum \<Rightarrow> jsnum \<Rightarrow> jsnum" where
  "js_mul a b =
     (case (a, b) of (Some m, Some n) \<Rightarrow> Some (round_double (m * n)) | _ \<Rightarrow> None)"

text \<open>
  Line 99, the fee handed to the fee-bump builder:
  \<^verbatim>\<open>(parseInt(baseFee) * 120).toString()\<close>. \<open>parseInt\<close> first converts its Number
  argument to a string.
\<close>

definition feeBumpFee :: "nat \<Rightarrow> jsstring" where
  "feeBumpFee baseFee =
     js_toString (js_mul (js_parseInt (js_toString (Some baseFee))) (Some 120))"

section \<open>Data model\<close>

text \<open>
  A thrown value: a plain \<open>Error\<close> or a \<open>TypeError\<close>, its message, and for a failed
  HTTP request the response the client attaches to it. The handler reads
  \<open>e.response.status\<close> and \<open>e.response?.data?.extras?.result_codes\<close>; each link of that
  chain may be absent. Result codes are an object, hence truthy whenever present.
\<close>

datatype result_codes = ResultCodes (rc_transaction: jsstring) (rc_operations: "jsstring list")

datatype extras = Extras (result_codes: "result_codes option")

datatype response_data = ResponseData (extras: "extras option")

datatype http_response = HttpResponse (status: nat) (data: "response_data option")

datatype error_kind = Error | TypeError

datatype js_error =
  JsError (kind: error_kind) (message: jsstring) (response: "http_response option")

text \<open>One entry of \<open>accounts.json\<close>; a field that is absent (or \<open>null\<close>) is \<open>None\<close>.\<close>

record account =
  name :: "jsstring option"
  mainMnemonic :: "jsstring option"
  sponsorMnemonic :: "jsstring option"
  receiverAddress :: "jsstring option"

datatype wallet = Wallet (publicKey: jsstring) (secretKey: jsstring)

datatype keypair = Keypair (kp_publicKey: jsstring) (kp_secret: jsstring)

datatype claimable = Claimable (cb_id: jsstring) (cb_amount: jsstring)

datatype ledger_account = LedgerAccount (accountId: jsstring) (sequence: jsstring)

datatype asset = Native

datatype operation =
  ClaimClaimableBalance jsstring
| Payment jsstring asset jsstring

record transaction =
  source :: ledger_account
  fee :: jsstring
  networkPassphrase :: jsstring
  operations :: "operation list"
  timeout :: nat
  signatures :: "keypair list"

record fee_bump_transaction =
  feeSource :: jsstring
  fb_fee :: jsstring
  innerTransaction :: transaction
  fb_networkPassphrase :: jsstring
  fb_signatures :: "keypair list"

datatype submit_result = SubmitResult (tx_hash: jsstring)

text \<open>
  The success notification of lines 109 to 111, by the values its template interpolates:
  \<open>account.name\<close>, \<open>cb.amount\<close>, \<open>result.hash.substring(0, 15)\<close> and \<open>result.hash\<close>.
\<close>

datatype notification = ClaimSuccess "jsstring option" jsstring jsstring jsstring

section \<open>Effects\<close>

text \<open>
  Everything the program does to the outside is an event: a console line (one
  constructor for each \<open>console.log\<close> and \<open>console.error\<close> of the source, carrying the
  values its template interpolates), a request to the ledger server, a signature, or a
  POST to the messaging API.
\<close>

datatype log_line =
  Starting
| ReadingConfig
| ConfigLoaded nat
| CycleStart
| CycleEnd
| Processing jsstring
| NoClaimable jsstring
| Found jsstring jsstring
| Sending jsstring
| Success jsstring

datatype error_detail = Codes result_codes | Msg jsstring

datatype error_line =
  TelegramFailed jsstring
| ConfigIncomplete jsstring
| RateLimited jsstring
| ProcessingFailed jsstring error_detail
| ConfigEmpty
| ConfigUnreadable jsstring
| Fatal js_error

datatype event =
  ConsoleLog log_line
| ConsoleError error_line
| ClaimableBalancesCall jsstring nat
| LoadAccountCall jsstring
| FetchBaseFeeCall
| SubmitTransactionCall fee_bump_transaction
| SignTransaction transaction keypair
| SignFeeBump fee_bump_transaction keypair
| AxiosPost jsstring jsstring notification

text \<open>
  An \<open>async\<close> function is a computation that is given the history (all events so far,
  on which the answers of the outside world may depend) and yields its outcome, a thrown
  error (\<open>Inl\<close>) or a value, with the events it adds to the history.
\<close>

type_synonym 'a io = "event list \<Rightarrow> (js_error + 'a) \<times> event list"

definition io_return :: "'a \<Rightarrow> 'a io" where
  "io_return x = (\<lambda>w. (Inr x, []))"

definition io_throw :: "js_error \<Rightarrow> 'a io" where
  "io_throw e = (\<lambda>w. (Inl e, []))"

definition io_bind :: "'a io \<Rightarrow> ('a \<Rightarrow> 'b io) \<Rightarrow> 'b io" where
  "io_bind m f =
     (\<lambda>w. case m w of
            (Inl e, es) \<Rightarrow> (Inl e, es)
          | (Inr x, es) \<Rightarrow> (case f x (w @ es) of (r, es') \<Rightarrow> (r, es @ es')))"

definition emit :: "event \<Rightarrow> unit io" where
  "emit ev = (\<lambda>w. (Inr (), [ev]))"

text \<open>A request: the event of the call, then the answer the outside gives after it.\<close>

definition call :: "event \<Rightarrow> (event list \<Rightarrow> js_error + 'a) \<Rightarrow> 'a io" where
  "call ev respond = (\<lambda>w. (respond (w @ [ev]), [ev]))"

text \<open>\<open>try { m } catch (e) { h e }\<close>.\<close>

definition try_catch :: "'a io \<Rightarrow> (js_error \<Rightarrow> 'a io) \<Rightarrow> 'a io" where
  "try_catch m h =
     (\<lambda>w. case m w of
            (Inl e, es) \<Rightarrow> (case h e (w @ es) of (r, es') \<Rightarrow> (r, es @ es'))
          | (Inr x, es) \<Rightarrow> (Inr x, es))"

text \<open>\<open>for (const x of xs) { await f(x) }\<close>: a throw leaves the loop.\<close>

fun for_of :: "('a \<Rightarrow> unit io) \<Rightarrow> 'a list \<Rightarrow> unit io" where
  "for_of f [] = io_return ()"
| "for_of f (x # xs) = io_bind (f x) (\<lambda>_. for_of f xs)"

section \<open>External collaborators\<close>

text \<open>
  The libraries (\<open>bip39\<close>, \<open>ed25519-hd-key\<close>, \<open>stellar-sdk\<close>) are not part of the
  repository; their functions are parameters. Key derivation functions are pure. The
  operation and fee-bump builders validate their arguments and may throw; the error they
  throw, if any, is a parameter too, and so is the error of the fee-bump builder for a
  fee that is no decimal numeral.
\<close>

record libs =
  validateMnemonic :: "jsstring \<Rightarrow> bool"
  mnemonicToSeed :: "jsstring \<Rightarrow> 8 word list"
  derivePath :: "jsstring \<Rightarrow> jsstring \<Rightarrow> 8 word list"
  fromRawEd25519Seed :: "8 word list \<Rightarrow> keypair"
  fromSecret :: "jsstring \<Rightarrow> keypair"
  claimOpError :: "jsstring \<Rightarrow> js_error option"
  paymentOpError :: "jsstring \<Rightarrow> jsstring \<Rightarrow> js_error option"
  feeBumpError :: "jsstring \<Rightarrow> jsstring \<Rightarrow> transaction \<Rightarrow> js_error option"
  feeNumeralError :: "jsstring \<Rightarrow> js_error"

text \<open>
  The ledger server (\<open>StellarSdk.Horizon.Server\<close>): each request is answered with a
  value or a thrown error, depending on the history.
\<close>

record server =
  claimableBalances :: "event list \<Rightarrow> jsstring \<Rightarrow> nat \<Rightarrow> js_error + claimable list"
  loadAccount :: "event list \<Rightarrow> jsstring \<Rightarrow> js_error + ledger_account"
  fetchBaseFee :: "event list \<Rightarrow> js_error + nat"
  submitTransaction :: "event list \<Rightarrow> fee_bump_transaction \<Rightarrow> js_error + submit_result"

text \<open>The two environment variables and the messaging API behind \<open>axios.post\<close>.\<close>

record telegram =
  TELEGRAM_BOT_TOKEN :: "jsstring option"
  TELEGRAM_CHAT_ID :: "jsstring option"
  axios_post :: "event list \<Rightarrow> jsstring \<Rightarrow> jsstring \<Rightarrow> notification \<Rightarrow> js_error + unit"

section \<open>The program\<close>

subsection \<open>sendTelegramMessage (lines 13 to 28)\<close>

definition sendTelegramMessage :: "telegram \<Rightarrow> notification \<Rightarrow> unit io" where
  "sendTelegramMessage tg msg =
     (case (TELEGRAM_BOT_TOKEN tg, TELEGRAM_CHAT_ID tg) of
        (Some botToken, Some chatId) \<Rightarrow>
          if botToken = [] \<or> chatId = [] then io_return ()
          else
            let url = ascii ''https://api.telegram.org/bot'' @ botToken @ ascii ''/sendMessage''
            in try_catch
                 (call (AxiosPost url chatId msg) (\<lambda>w. axios_post tg w url chatId msg))
                 (\<lambda>err. emit (ConsoleError (TelegramFailed (message err))))
      | _ \<Rightarrow> io_return ())"

subsection \<open>getPiWalletAddressFromSeed (lines 35 to 42)\<close>

definition hex_digit :: "nat \<Rightarrow> 16 word" where
  "hex_digit d = (if d < 10 then of_nat (48 + d) else of_nat (87 + d))"

definition to_hex :: "8 word list \<Rightarrow> jsstring" where
  "to_hex bs = concat (map (\<lambda>b. [hex_digit (unat b div 16), hex_digit (unat b mod 16)]) bs)"

text \<open>The path \<^verbatim>\<open>m/44'/314159'/0'\<close>; 39 is the apostrophe.\<close>

definition derivationPath :: jsstring where
  "derivationPath = ascii ''m/44'' @ [39] @ ascii ''/314159'' @ [39] @ ascii ''/0'' @ [39]"

text \<open>The error of line 36.\<close>

definition mnemonicError :: "jsstring \<Rightarrow> js_error" where
  "mnemonicError mnemonic =
     JsError Error (ascii ''Mnemonic tidak valid: '' @ substring0 mnemonic 10 @ ascii ''...'') None"

definition getPiWalletAddressFromSeed :: "libs \<Rightarrow> jsstring \<Rightarrow> wallet io" where
  "getPiWalletAddressFromSeed L mnemonic =
     (if \<not> validateMnemonic L mnemonic then io_throw (mnemonicError mnemonic)
      else
        let seed = mnemonicToSeed L mnemonic;
            key = derivePath L derivationPath (to_hex seed);
            keypair = fromRawEd25519Seed L key
        in io_return (Wallet (kp_publicKey keypair) (kp_secret keypair)))"

subsection \<open>processAccount (lines 49 to 121)\<close>

text \<open>
  Line 50: \<^verbatim>\<open>account.name || account.mainMnemonic.substring(0, 15) + '...'\<close>. With a
  falsy name and no \<open>mainMnemonic\<close>, the call of \<open>substring\<close> on \<open>undefined\<close> throws a
  \<open>TypeError\<close> (the message is the engine's).
\<close>

definition typeError :: js_error where
  "typeError =
     JsError TypeError
       (ascii ''Cannot read properties of undefined (reading '' @ [39] @ ascii ''substring''
          @ [39] @ ascii '')'')
       None"

definition accountIdentifier :: "account \<Rightarrow> js_error + jsstring" where
  "accountIdentifier a =
     (if truthy (name a) then (case name a of Some n \<Rightarrow> Inr n | None \<Rightarrow> Inl typeError)
      else (case mainMnemonic a of
              None \<Rightarrow> Inl typeError
            | Some m \<Rightarrow> Inr (substring0 m 15 @ ascii ''...'')))"

definition io_of :: "js_error + 'a \<Rightarrow> 'a io" where
  "io_of r = (\<lambda>w. (r, []))"

definition networkPassphrase0 :: jsstring where
  "networkPassphrase0 = ascii ''Pi Network''"

text \<open>Lines 84 to 92: the builder chain; the two operations are built first, in order.\<close>

definition buildInnerTransaction ::
  "libs \<Rightarrow> ledger_account \<Rightarrow> jsstring \<Rightarrow> claimable \<Rightarrow> transaction io" where
  "buildInnerTransaction L mainAccount receiver cb =
     (case claimOpError L (cb_id cb) of
        Some e \<Rightarrow> io_throw e
      | None \<Rightarrow>
         (case paymentOpError L receiver (cb_amount cb) of
            Some e \<Rightarrow> io_throw e
          | None \<Rightarrow>
              io_return
                \<lparr>source = mainAccount,
                 fee = ascii ''0'',
                 networkPassphrase = networkPassphrase0,
                 operations =
                   [ClaimClaimableBalance (cb_id cb), Payment receiver Native (cb_amount cb)],
                 timeout = 60,
                 signatures = []\<rparr>))"

definition sign_transaction :: "transaction \<Rightarrow> keypair \<Rightarrow> transaction io" where
  "sign_transaction tx kp =
     (\<lambda>w. (Inr (tx\<lparr>signatures := signatures tx @ [kp]\<rparr>), [SignTransaction tx kp]))"

text \<open>
  Lines 97 to 102. The builder is the library's
  \<^verbatim>\<open>TransactionBuilder.buildFeeBumpTransaction(feeSource, baseFee, innerTx, networkPassphrase)\<close>:
  its second argument is the fee for one operation, read as a decimal numeral of any
  size, and the transaction it returns declares that fee times the number of operations
  of the inner transaction plus one (the fee bump itself counts as an operation).
  A string that is no decimal numeral (\<open>NaN\<close>, exponent notation) is no fee; the
  builder throws.
\<close>

definition bignumber :: "jsstring \<Rightarrow> nat option" where
  "bignumber s = (if s \<noteq> [] \<and> list_all is_digit s then Some (parse_digits 0 s) else None)"

definition buildFeeBumpTransaction ::
  "libs \<Rightarrow> jsstring \<Rightarrow> jsstring \<Rightarrow> transaction \<Rightarrow> jsstring \<Rightarrow> fee_bump_transaction io" where
  "buildFeeBumpTransaction L feeSrc baseFee inner passphrase =
     (case feeBumpError L feeSrc baseFee inner of
        Some e \<Rightarrow> io_throw e
      | None \<Rightarrow>
         (case bignumber baseFee of
            None \<Rightarrow> io_throw (feeNumeralError L baseFee)
          | Some base \<Rightarrow>
              io_return
                \<lparr>feeSource = feeSrc,
                 fb_fee = decimal (base * (length (operations inner) + 1)),
                 innerTransaction = inner,
                 fb_networkPassphrase = passphrase, fb_signatures = []\<rparr>))"

definition sign_fee_bump :: "fee_bump_transaction \<Rightarrow> keypair \<Rightarrow> fee_bump_transaction io" where
  "sign_fee_bump fb kp =
     (\<lambda>w. (Inr (fb\<lparr>fb_signatures := fb_signatures fb @ [kp]\<rparr>), [SignFeeBump fb kp]))"

text \<open>The body of the loop over the records, lines 80 to 111.\<close>

definition processRecord ::
  "libs \<Rightarrow> server \<Rightarrow> telegram \<Rightarrow> account \<Rightarrow> jsstring \<Rightarrow> jsstring \<Rightarrow> keypair \<Rightarrow> keypair
     \<Rightarrow> claimable \<Rightarrow> unit io" where
  "processRecord L srv tg a ident receiver mainKeypair sponsorKeypair cb =
     io_bind (emit (ConsoleLog (Found ident (cb_amount cb)))) (\<lambda>_.
     io_bind (call (LoadAccountCall (kp_publicKey mainKeypair))
                (\<lambda>w. loadAccount srv w (kp_publicKey mainKeypair))) (\<lambda>mainAccount.
     io_bind (buildInnerTransaction L mainAccount receiver cb) (\<lambda>built.
     io_bind (sign_transaction built mainKeypair) (\<lambda>inner.
     io_bind (call FetchBaseFeeCall (fetchBaseFee srv)) (\<lambda>baseFee.
     io_bind (buildFeeBumpTransaction L (kp_publicKey sponsorKeypair) (feeBumpFee baseFee)
                inner networkPassphrase0) (\<lambda>bump.
     io_bind (sign_fee_bump bump sponsorKeypair) (\<lambda>feeBump.
     io_bind (emit (ConsoleLog (Sending ident))) (\<lambda>_.
     io_bind (call (SubmitTransactionCall feeBump)
                (\<lambda>w. submitTransaction srv w feeBump)) (\<lambda>result.
     io_bind (emit (ConsoleLog (Success (tx_hash result)))) (\<lambda>_.
     sendTelegramMessage tg
       (ClaimSuccess (name a) (cb_amount cb) (substring0 (tx_hash result) 15)
          (tx_hash result))))))))))))"

text \<open>The \<open>try\<close> block, lines 63 to 112.\<close>

definition processAccount_try ::
  "libs \<Rightarrow> server \<Rightarrow> telegram \<Rightarrow> account \<Rightarrow> jsstring \<Rightarrow> jsstring \<Rightarrow> jsstring \<Rightarrow> jsstring
     \<Rightarrow> unit io" where
  "processAccount_try L srv tg a ident mainMn sponsorMn receiver =
     io_bind (getPiWalletAddressFromSeed L mainMn) (\<lambda>mainWallet.
     io_bind (getPiWalletAddressFromSeed L sponsorMn) (\<lambda>sponsorWallet.
       let mainKeypair = fromSecret L (secretKey mainWallet);
           sponsorKeypair = fromSecret L (secretKey sponsorWallet)
       in
     io_bind (call (ClaimableBalancesCall (kp_publicKey mainKeypair) 10)
                (\<lambda>w. claimableBalances srv w (kp_publicKey mainKeypair) 10)) (\<lambda>records.
       if length records = 0 then emit (ConsoleLog (NoClaimable ident))
       else for_of (processRecord L srv tg a ident receiver mainKeypair sponsorKeypair)
              records)))"

text \<open>The \<open>catch\<close> block, lines 114 to 119.\<close>

definition error_result_codes :: "js_error \<Rightarrow> result_codes option" where
  "error_result_codes e =
     (case response e of
        None \<Rightarrow> None
      | Some r \<Rightarrow>
         (case data r of
            None \<Rightarrow> None
          | Some d \<Rightarrow> (case extras d of None \<Rightarrow> None | Some x \<Rightarrow> result_codes x)))"

definition processAccount_catch :: "jsstring \<Rightarrow> js_error \<Rightarrow> unit io" where
  "processAccount_catch ident e =
     (if (case response e of None \<Rightarrow> False | Some r \<Rightarrow> status r = 429)
      then emit (ConsoleError (RateLimited ident))
      else
        let errorMessage =
              (case error_result_codes e of Some c \<Rightarrow> Codes c | None \<Rightarrow> Msg (message e))
        in emit (ConsoleError (ProcessingFailed ident errorMessage)))"

definition processAccount :: "libs \<Rightarrow> server \<Rightarrow> telegram \<Rightarrow> account \<Rightarrow> unit io" where
  "processAccount L srv tg a =
     io_bind (io_of (accountIdentifier a)) (\<lambda>ident.
     io_bind (emit (ConsoleLog (Processing ident))) (\<lambda>_.
       if \<not> truthy (mainMnemonic a) \<or> \<not> truthy (sponsorMnemonic a)
          \<or> \<not> truthy (receiverAddress a)
       then emit (ConsoleError (ConfigIncomplete ident))
       else
         (case (mainMnemonic a, sponsorMnemonic a, receiverAddress a) of
            (Some mainMn, Some sponsorMn, Some receiver) \<Rightarrow>
              try_catch (processAccount_try L srv tg a ident mainMn sponsorMn receiver)
                (processAccount_catch ident)
          | _ \<Rightarrow> emit (ConsoleError (ConfigIncomplete ident)))))"

subsection \<open>runAllBotsContinuously (lines 126 to 153) and the main program\<close>

text \<open>One pass of the \<open>while (true)\<close> body, lines 147 to 151.\<close>

definition runCycle :: "libs \<Rightarrow> server \<Rightarrow> telegram \<Rightarrow> account list \<Rightarrow> unit io" where
  "runCycle L srv tg accounts =
     io_bind (emit (ConsoleLog CycleStart)) (\<lambda>_.
     io_bind (for_of (processAccount L srv tg) accounts) (\<lambda>_.
     emit (ConsoleLog CycleEnd)))"

text \<open>
  The loop has no exit: it ends only when a cycle throws. \<open>None\<close> is the run that
  never ends; \<open>Some (e, es)\<close> is the error that left the loop and the events added by then.
\<close>

partial_function (option) cycles ::
  "libs \<Rightarrow> server \<Rightarrow> telegram \<Rightarrow> account list \<Rightarrow> event list \<Rightarrow> event list
     \<Rightarrow> (js_error \<times> event list) option" where
  "cycles L srv tg accounts w done =
     (case runCycle L srv tg accounts (w @ done) of
        (Inl e, es) \<Rightarrow> Some (e, done @ es)
      | (Inr u, es) \<Rightarrow> cycles L srv tg accounts w (done @ es))"

text \<open>
  The configuration file as read and parsed: a thrown error (no file, bad JSON), or the
  parsed value, \<open>None\<close> for \<open>null\<close>.
\<close>

definition runAllBotsContinuously ::
  "libs \<Rightarrow> server \<Rightarrow> telegram \<Rightarrow> js_error + account list option \<Rightarrow> event list
     \<Rightarrow> ((js_error + unit) \<times> event list) option" where
  "runAllBotsContinuously L srv tg file w =
     (case file of
        Inl error \<Rightarrow>
          Some (Inr (), [ConsoleLog ReadingConfig, ConsoleError (ConfigUnreadable (message error))])
      | Inr None \<Rightarrow> Some (Inr (), [ConsoleLog ReadingConfig, ConsoleError ConfigEmpty])
      | Inr (Some accounts) \<Rightarrow>
          if length accounts = 0
          then Some (Inr (), [ConsoleLog ReadingConfig, ConsoleError ConfigEmpty])
          else
            (case cycles L srv tg accounts w
                    [ConsoleLog ReadingConfig, ConsoleLog (ConfigLoaded (length accounts))] of
               None \<Rightarrow> None
             | Some (e, es) \<Rightarrow> Some (Inl e, es)))"

text \<open>
  Lines 156 to 159: the whole run, as the list of all events when the main promise
  settles, \<open>None\<close> when it never does.
\<close>

definition program ::
  "libs \<Rightarrow> server \<Rightarrow> telegram \<Rightarrow> js_error + account list option \<Rightarrow> event list option" where
  "program L srv tg file =
     (case runAllBotsContinuously L srv tg file [ConsoleLog Starting] of
        None \<Rightarrow> None
      | Some (Inl err, es) \<Rightarrow> Some (ConsoleLog Starting # es @ [ConsoleError (Fatal err)])
      | Some (Inr u, es) \<Rightarrow> Some (ConsoleLog Starting # es))"

section \<open>Observations on traces\<close>

text \<open>The inner transaction an event carries, if any.\<close>

fun inner_of :: "event \<Rightarrow> transaction option" where
  "inner_of (SignTransaction tx kp) = Some tx"
| "inner_of (SignFeeBump fb kp) = Some (innerTransaction fb)"
| "inner_of (SubmitTransactionCall fb) = Some (innerTransaction fb)"
| "inner_of ev = None"

fun is_network :: "event \<Rightarrow> bool" where
  "is_network (ClaimableBalancesCall pk n) = True"
| "is_network (LoadAccountCall pk) = True"
| "is_network FetchBaseFeeCall = True"
| "is_network (SubmitTransactionCall fb) = True"
| "is_network (AxiosPost url chat msg) = True"
| "is_network ev = False"

fun is_signing :: "event \<Rightarrow> bool" where
  "is_signing (SignTransaction tx kp) = True"
| "is_signing (SignFeeBump fb kp) = True"
| "is_signing ev = False"


text \<open>Every event a computation adds satisfies \<open>P\<close>, whatever the history.\<close>

definition emits :: "(event \<Rightarrow> bool) \<Rightarrow> 'a io \<Rightarrow> bool" where
  "emits P m = (\<forall>w. \<forall>ev \<in> set (snd (m w)). P ev)"

text \<open>
  The key pair \<open>processAccount\<close> works with for a valid mnemonic: the wallet of
  \<open>getPiWalletAddressFromSeed\<close>, read back through \<open>Keypair.fromSecret\<close> (lines 63 to 66).
\<close>

definition derivedKeypair :: "libs \<Rightarrow> jsstring \<Rightarrow> keypair" where
  "derivedKeypair L mnemonic =
     fromSecret L
       (kp_secret (fromRawEd25519Seed L (derivePath L derivationPath (to_hex (mnemonicToSeed L mnemonic)))))"

section \<open>Scenarios\<close>

text \<open>Concrete collaborators and configurations, on which the program is run below.\<close>

definition demoMain :: jsstring where
  "demoMain = ascii ''alpha bravo charlie delta''"

definition demoSponsor :: jsstring where
  "demoSponsor = ascii ''echo foxtrot golf hotel''"

definition demoBad :: jsstring where
  "demoBad = ascii ''not a real seed phrase''"

definition mainKp :: keypair where
  "mainKp = Keypair (ascii ''GMAIN'') (ascii ''SMAIN'')"

definition sponsorKp :: keypair where
  "sponsorKp = Keypair (ascii ''GSPON'') (ascii ''SSPON'')"

definition demoLibs :: libs where
  "demoLibs =
     \<lparr>validateMnemonic = (\<lambda>m. m = demoMain \<or> m = demoSponsor),
      mnemonicToSeed = (\<lambda>m. if m = demoMain then [1] else [2]),
      derivePath = (\<lambda>p h. if h = ascii ''01'' then [1] else [2]),
      fromRawEd25519Seed = (\<lambda>k. if k = [1] then mainKp else sponsorKp),
      fromSecret = (\<lambda>s. if s = ascii ''SMAIN'' then mainKp else sponsorKp),
      claimOpError = (\<lambda>i. None),
      paymentOpError = (\<lambda>d amt. None),
      feeBumpError = (\<lambda>src f tx. None),
      feeNumeralError = (\<lambda>f. JsError Error f None)\<rparr>"

definition demoTelegram :: telegram where
  "demoTelegram =
     \<lparr>TELEGRAM_BOT_TOKEN = None, TELEGRAM_CHAT_ID = None,
      axios_post = (\<lambda>w url chat msg. Inr ())\<rparr>"

definition cb1 :: claimable where
  "cb1 = Claimable (ascii ''BAL1'') (ascii ''10.5'')"

definition cb2 :: claimable where
  "cb2 = Claimable (ascii ''BAL2'') (ascii ''3'')"

text \<open>A ledger with nothing to claim.\<close>

definition quietServer :: server where
  "quietServer =
     \<lparr>claimableBalances = (\<lambda>w pk n. Inr []),
      loadAccount = (\<lambda>w pk. Inr (LedgerAccount pk (ascii ''7''))),
      fetchBaseFee = (\<lambda>w. Inr 100),
      submitTransaction = (\<lambda>w fb. Inr (SubmitResult (ascii ''abc123'')))\<rparr>"

text \<open>A ledger with two balances that rejects every submission with result codes.\<close>

definition rejection :: js_error where
  "rejection =
     JsError Error (ascii ''Request failed with status code 400'')
       (Some (HttpResponse 400
          (Some (ResponseData (Some (Extras (Some (ResultCodes (ascii ''tx_failed'') []))))))))"

definition rejectingServer :: server where
  "rejectingServer =
     \<lparr>claimableBalances = (\<lambda>w pk n. Inr [cb1, cb2]),
      loadAccount = (\<lambda>w pk. Inr (LedgerAccount pk (ascii ''7''))),
      fetchBaseFee = (\<lambda>w. Inr 100),
      submitTransaction = (\<lambda>w fb. Inl rejection)\<rparr>"

text \<open>A ledger that throttles every query, and one behind a gateway that times out.\<close>

definition throttled :: js_error where
  "throttled =
     JsError Error (ascii ''Request failed with status code 429'')
       (Some (HttpResponse 429 None))"

definition busyServer :: server where
  "busyServer = rejectingServer\<lparr>claimableBalances := (\<lambda>w pk n. Inl throttled)\<rparr>"

definition gatewayTimeout :: js_error where
  "gatewayTimeout =
     JsError Error (ascii ''Request failed with status code 504'')
       (Some (HttpResponse 504 (Some (ResponseData None))))"

definition gatewayServer :: server where
  "gatewayServer = rejectingServer\<lparr>claimableBalances := (\<lambda>w pk n. Inl gatewayTimeout)\<rparr>"

definition demoAccount :: account where
  "demoAccount =
     \<lparr>name = Some (ascii ''acct1''), mainMnemonic = Some demoMain,
      sponsorMnemonic = Some demoSponsor, receiverAddress = Some (ascii ''GRECV'')\<rparr>"

definition namelessAccount :: account where
  "namelessAccount = demoAccount\<lparr>name := None\<rparr>"

definition brokenAccount :: account where
  "brokenAccount = demoAccount\<lparr>name := None, mainMnemonic := None\<rparr>"

definition badSeedAccount :: account where
  "badSeedAccount = demoAccount\<lparr>name := None, mainMnemonic := Some demoBad\<rparr>"

text \<open>The transactions built for \<open>cb1\<close> in these scenarios.\<close>

definition demoInner :: transaction where
  "demoInner =
     \<lparr>source = LedgerAccount (ascii ''GMAIN'') (ascii ''7''),
      fee = ascii ''0'',
      networkPassphrase = ascii ''Pi Network'',
      operations =
        [ClaimClaimableBalance (ascii ''BAL1''), Payment (ascii ''GRECV'') Native (ascii ''10.5'')],
      timeout = 60,
      signatures = []\<rparr>"

definition demoFeeBump :: fee_bump_transaction where
  "demoFeeBump =
     \<lparr>feeSource = ascii ''GSPON'', fb_fee = ascii ''36000'',
      innerTransaction = demoInner\<lparr>signatures := [mainKp]\<rparr>,
      fb_networkPassphrase = ascii ''Pi Network'', fb_signatures = []\<rparr>"

text \<open>The inner transaction that claims \<open>cb\<close> and forwards it to \<open>receiver\<close>.\<close>

definition shape :: "jsstring \<Rightarrow> claimable \<Rightarrow> transaction \<Rightarrow> bool" where
  "shape receiver cb tx \<longleftrightarrow>
      operations tx = [ClaimClaimableBalance (cb_id cb), Payment receiver Native (cb_amount cb)]
    \<and> fee tx = ascii ''0'' \<and> timeout tx = 60"

section \<open>Lemmas on numbers\<close>

lemma bit_length_bounds: "0 < n \<Longrightarrow> 2 ^ (bit_length n - 1) \<le> n \<and> n < 2 ^ bit_length n"
proof (induction n rule: bit_length.induct)
  case (1 n)
  show ?case
  proof (cases "n div 2 = 0")
    case True
    with "1.prems" have "n = 1" by presburger
    then show ?thesis by (simp add: bit_length.simps)
  next
    case False
    then have pos: "0 < n div 2" by simp
    from "1.IH" [OF _ pos] "1.prems"
    have ih: "2 ^ (bit_length (n div 2) - 1) \<le> n div 2" "n div 2 < 2 ^ bit_length (n div 2)"
      by simp_all
    have bl: "bit_length n = Suc (bit_length (n div 2))"
      using "1.prems" by (subst bit_length.simps) simp
    have blpos: "0 < bit_length (n div 2)"
      using pos by (subst bit_length.simps) simp
    then obtain k where k: "bit_length (n div 2) = Suc k"
      by (cases "bit_length (n div 2)") simp_all
    from ih k have "2 ^ k \<le> n div 2" "n div 2 < 2 ^ Suc k" by simp_all
    then have "2 * 2 ^ k \<le> n" "n < 2 * 2 ^ Suc k" by presburger+
    then show ?thesis by (simp add: bl k)
  qed
qed

lemma round_double_small: "v < 2 ^ 53 \<Longrightarrow> round_double v = v"
  by (simp add: round_double_def)

lemma round_double_big:
  assumes "2 ^ 53 \<le> v"
  shows "2 ^ 53 \<le> round_double v"
proof -
  define L where "L = bit_length v"
  from assms have vpos: "0 < v" by (simp add: order.strict_trans2 [of 0 "2 ^ 53" v])
  from bit_length_bounds [OF vpos] have b: "2 ^ (L - 1) \<le> v" "v < 2 ^ L"
    by (simp_all add: L_def)
  from assms b(2) have "(2::nat) ^ 53 < 2 ^ L" by (rule order.strict_trans1)
  then have L53: "53 < L" by (simp only: power_strict_increasing_iff one_less_numeral_iff semiring_norm)
  define e where "e = L - 53"
  have epos: "0 < e" and Le: "L - 1 = 52 + e" using L53 by (simp_all add: e_def)
  have "(2::nat) ^ (L - 1) = 2 ^ 52 * 2 ^ e" by (simp only: Le power_add)
  with b(1) have "(2::nat) ^ 52 * 2 ^ e \<le> v" by (simp only:)
  then have q: "2 ^ 52 \<le> v div 2 ^ e"
    by (simp add: less_eq_div_iff_mult_less_eq)
  have two: "(2::nat) \<le> 2 ^ e" using epos by (cases e) simp_all
  have "(2::nat) ^ 53 = 2 ^ 52 * 2" by simp
  also have "\<dots> \<le> (v div 2 ^ e) * 2 ^ e" using q two by (rule mult_le_mono)
  finally have low: "2 ^ 53 \<le> (v div 2 ^ e) * 2 ^ e" .
  have "(v div 2 ^ e) * 2 ^ e \<le> (v div 2 ^ e + 1) * 2 ^ e" by simp
  with low have high: "2 ^ 53 \<le> (v div 2 ^ e + 1) * 2 ^ e" by (rule order_trans)
  have nl: "\<not> v < 2 ^ 53" using assms by simp
  show ?thesis
    unfolding round_double_def Let_def using low high nl
    by (simp only: L_def [symmetric] e_def [symmetric] if_False split: if_split) simp
qed

lemma round_double_safe: "round_double v = x \<Longrightarrow> x < 2 ^ 53 \<Longrightarrow> v = x"
proof (cases "v < 2 ^ 53")
  case True
  assume "round_double v = x"
  with True show ?thesis by (simp add: round_double_small)
next
  case False
  assume "round_double v = x" "x < 2 ^ 53"
  moreover from False have "2 ^ 53 \<le> round_double v" by (intro round_double_big) simp
  ultimately show ?thesis by simp
qed

lemma shortest_from_round:
  "round_double (shortest_from x m) = x \<or> shortest_from x m = x"
  by (induction m) (auto simp: Let_def)

lemma shortest_safe: "x < 2 ^ 53 \<Longrightarrow> shortest x = x"
  using shortest_from_round [of x "length (decimal x) - 1"]
  by (auto simp: shortest_def dest: round_double_safe)

lemma js_toString_safe: "n < 2 ^ 53 \<Longrightarrow> js_toString (Some n) = decimal n"
proof -
  assume n: "n < 2 ^ 53"
  have "(2::nat) ^ 53 < 10 ^ 21" by simp
  with n have "n < 10 ^ 21" by (rule order.strict_trans)
  with n show ?thesis by (simp add: js_toString_def shortest_safe)
qed

lemma unat_digit: "d < 10 \<Longrightarrow> unat (digit d) = 48 + d"
proof -
  assume "d < 10"
  then have "48 + d < 2 ^ 16" by simp
  then have "(48 + d) mod 2 ^ 16 = 48 + d" by (rule mod_less)
  then show ?thesis by (simp only: digit_def unat_of_nat len_of_numeral_defs) simp
qed

lemma is_digit_digit: "d < 10 \<Longrightarrow> is_digit (digit d)"
  by (simp add: is_digit_def unat_digit)

lemma digit_val_digit: "d < 10 \<Longrightarrow> digit_val (digit d) = d"
  by (simp add: digit_val_def unat_digit)

lemma parse_digits_snoc:
  "\<forall>c \<in> set cs. is_digit c \<Longrightarrow> d < 10 \<Longrightarrow>
   parse_digits acc (cs @ [digit d]) = 10 * parse_digits acc cs + d"
  by (induction cs arbitrary: acc) (simp_all add: is_digit_digit digit_val_digit)

lemma decimal_digits: "\<forall>c \<in> set (decimal n). is_digit c"
  by (induction n rule: decimal.induct) (subst decimal.simps, simp add: is_digit_digit)

lemma parse_digits_decimal: "parse_digits 0 (decimal n) = n"
proof (induction n rule: decimal.induct)
  case (1 n)
  show ?case
  proof (cases "n < 10")
    case True
    then show ?thesis
      by (subst decimal.simps) (simp add: is_digit_digit digit_val_digit)
  next
    case False
    then have "parse_digits 0 (decimal n) = 10 * parse_digits 0 (decimal (n div 10)) + n mod 10"
      by (subst decimal.simps) (simp add: parse_digits_snoc decimal_digits)
    with False "1.IH" show ?thesis by simp
  qed
qed

lemma decimal_nonempty: "decimal n \<noteq> []"
  by (subst decimal.simps) simp

lemma js_parseInt_decimal: "js_parseInt (decimal n) = Some (round_double n)"
proof (cases "decimal n")
  case Nil
  then show ?thesis by (simp add: decimal_nonempty)
next
  case (Cons c cs)
  then have "is_digit c" using decimal_digits [of n] by simp
  with Cons show ?thesis
    using parse_digits_decimal [of n] by (simp add: js_parseInt_def)
qed

lemma bit_length_zero: "bit_length 0 = 0" by (simp add: bit_length.simps)
lemma bit_length_pos: "0 < n \<Longrightarrow> bit_length n = Suc (bit_length (n div 2))" by (subst bit_length.simps) simp
lemma decimal_small: "n < 10 \<Longrightarrow> decimal n = [digit n]" by (subst decimal.simps) simp
lemma decimal_big: "10 \<le> n \<Longrightarrow> decimal n = decimal (n div 10) @ [digit (n mod 10)]" by (subst decimal.simps) simp
lemma shortest_from_pos: "0 < m \<Longrightarrow> shortest_from x m =
     (let p = 10 ^ m;
          lo = (x div p) * p;
          hi = lo + p;
          okl = (round_double lo = x);
          okh = (round_double hi = x)
      in if okl \<and> okh then
           (if x - lo < hi - x then lo
            else if hi - x < x - lo then hi
            else if even (x div p) then lo else hi)
         else if okl then lo
         else if okh then hi
         else shortest_from x (m - 1))"
  by (cases m) (simp_all add: Let_def)
lemmas num_eval = bit_length_zero bit_length_pos decimal_small decimal_big shortest_from_pos round_double_def Let_def

lemma feeBumpFee_safe:
  assumes "120 * b < 2 ^ 53"
  shows "feeBumpFee b = decimal (120 * b)"
proof -
  have "b \<le> 120 * b" by simp
  then have b: "b < 2 ^ 53" using assms by (rule order.strict_trans1)
  have "js_parseInt (js_toString (Some b)) = Some b"
    using b by (simp add: js_toString_safe js_parseInt_decimal round_double_small)
  moreover have "js_mul (Some b) (Some 120) = Some (120 * b)"
    using assms by (simp add: js_mul_def round_double_small mult.commute)
  ultimately show ?thesis
    using assms by (simp add: feeBumpFee_def js_toString_safe)
qed

section \<open>Lemmas on computations\<close>

lemma io_bind_Inl: "m w = (Inl e, es) \<Longrightarrow> io_bind m f w = (Inl e, es)"
  by (simp add: io_bind_def)

lemma processAccount_catch_apply:
  "processAccount_catch ident e w =
     (Inr (),
      [ConsoleError
         (if (case response e of None \<Rightarrow> False | Some r \<Rightarrow> status r = 429)
          then RateLimited ident
          else ProcessingFailed ident
                 (case error_result_codes e of Some c \<Rightarrow> Codes c | None \<Rightarrow> Msg (message e)))])"
  by (simp add: processAccount_catch_def emit_def)

lemma accountIdentifier_typeError:
  "\<not> truthy (name a) \<Longrightarrow> mainMnemonic a = None \<Longrightarrow> accountIdentifier a = Inl typeError"
  by (simp add: accountIdentifier_def)

lemma accountIdentifier_Inl:
  "accountIdentifier a = Inl e \<Longrightarrow> e = typeError \<and> \<not> truthy (name a) \<and> mainMnemonic a = None"
  by (auto simp: accountIdentifier_def truthy_def split: option.splits if_splits)

lemma processAccount_typeError:
  "\<not> truthy (name a) \<Longrightarrow> mainMnemonic a = None \<Longrightarrow>
   processAccount L srv tg a w = (Inl typeError, [])"
  by (simp add: processAccount_def io_bind_def io_of_def accountIdentifier_typeError)

lemma processAccount_incomplete:
  assumes "accountIdentifier a = Inr ident"
    and "\<not> truthy (mainMnemonic a) \<or> \<not> truthy (sponsorMnemonic a) \<or> \<not> truthy (receiverAddress a)"
  shows "processAccount L srv tg a w =
           (Inr (), [ConsoleLog (Processing ident), ConsoleError (ConfigIncomplete ident)])"
  using assms by (auto simp: processAccount_def io_bind_def io_of_def emit_def)

lemma processAccount_complete:
  assumes "accountIdentifier a = Inr ident"
    and "mainMnemonic a = Some m" "m \<noteq> []"
    and "sponsorMnemonic a = Some s" "s \<noteq> []"
    and "receiverAddress a = Some r" "r \<noteq> []"
  shows "processAccount L srv tg a w =
           (fst (try_catch (processAccount_try L srv tg a ident m s r) (processAccount_catch ident)
                   (w @ [ConsoleLog (Processing ident)])),
            ConsoleLog (Processing ident) #
            snd (try_catch (processAccount_try L srv tg a ident m s r) (processAccount_catch ident)
                   (w @ [ConsoleLog (Processing ident)])))"
  using assms
  by (simp add: processAccount_def io_bind_def io_of_def emit_def truthy_def case_prod_beta)

lemma try_catch_processAccount_catch:
  "fst (try_catch m (processAccount_catch ident) w) = Inr ()"
  by (cases "m w"; cases "fst (m w)")
     (auto simp: try_catch_def processAccount_catch_apply split: prod.splits sum.splits)

lemma processAccount_Inl:
  assumes "fst (processAccount L srv tg a w) = Inl e"
  shows "e = typeError \<and> \<not> truthy (name a) \<and> mainMnemonic a = None"
proof (cases "accountIdentifier a")
  case (Inl e')
  then have "processAccount L srv tg a w = (Inl e', [])"
    by (simp add: processAccount_def io_bind_def io_of_def)
  with assms Inl show ?thesis by (auto dest: accountIdentifier_Inl)
next
  case (Inr ident)
  show ?thesis
  proof (cases "\<not> truthy (mainMnemonic a) \<or> \<not> truthy (sponsorMnemonic a) \<or> \<not> truthy (receiverAddress a)")
    case True
    from processAccount_incomplete [OF Inr True] assms show ?thesis by simp
  next
    case False
    then obtain m s r where c: "mainMnemonic a = Some m" "m \<noteq> []" "sponsorMnemonic a = Some s"
      "s \<noteq> []" "receiverAddress a = Some r" "r \<noteq> []"
      by (auto simp: truthy_def split: option.splits)
    have "fst (processAccount L srv tg a w) = Inr ()"
      using try_catch_processAccount_catch
        [of "processAccount_try L srv tg a ident m s r" ident "w @ [ConsoleLog (Processing ident)]"]
      by (simp add: processAccount_complete [OF Inr c])
    with assms show ?thesis by simp
  qed
qed

lemma for_of_typeError:
  assumes "\<not> truthy (name a)" "mainMnemonic a = None" "a \<in> set accounts"
  shows "fst (for_of (processAccount L srv tg) accounts w) = Inl typeError"
  using assms(3)
proof (induction accounts arbitrary: w)
  case Nil
  then show ?case by simp
next
  case (Cons x xs)
  show ?case
  proof (cases "fst (processAccount L srv tg x w)")
    case (Inl e)
    then have "e = typeError" by (auto dest: processAccount_Inl)
    with Inl show ?thesis by (cases "processAccount L srv tg x w") (simp add: io_bind_def)
  next
    case (Inr u)
    then have "x \<noteq> a" using processAccount_typeError [OF assms(1,2), of L srv tg w] by auto
    with Cons.prems have "a \<in> set xs" by simp
    from Cons.IH [OF this] Inr show ?thesis
      by (cases "processAccount L srv tg x w") (simp add: io_bind_def case_prod_beta)
  qed
qed

lemma runCycle_typeError:
  assumes "\<not> truthy (name a)" "mainMnemonic a = None" "a \<in> set accounts"
  shows "fst (runCycle L srv tg accounts w) = Inl typeError"
  using for_of_typeError [OF assms, of L srv tg "w @ [ConsoleLog CycleStart]"]
  by (cases "for_of (processAccount L srv tg) accounts (w @ [ConsoleLog CycleStart])")
     (simp add: runCycle_def io_bind_def emit_def)

lemma program_typeError:
  assumes "\<not> truthy (name a)" "mainMnemonic a = None" "a \<in> set accounts"
  shows "\<exists>es. program L srv tg (Inr (Some accounts)) = Some (es @ [ConsoleError (Fatal typeError)])"
proof -
  from assms(3) have ne: "accounts \<noteq> []" by auto
  let ?d = "[ConsoleLog ReadingConfig, ConsoleLog (ConfigLoaded (length accounts))]"
  obtain es where r: "runCycle L srv tg accounts ([ConsoleLog Starting] @ ?d) = (Inl typeError, es)"
    using runCycle_typeError [OF assms, of L srv tg "[ConsoleLog Starting] @ ?d"]
    by (cases "runCycle L srv tg accounts ([ConsoleLog Starting] @ ?d)") simp
  have "cycles L srv tg accounts [ConsoleLog Starting] ?d = Some (typeError, ?d @ es)"
    by (subst cycles.simps) (use r in simp)
  then have "program L srv tg (Inr (Some accounts)) =
      Some ((ConsoleLog Starting # ?d @ es) @ [ConsoleError (Fatal typeError)])"
    using ne by (simp add: program_def runAllBotsContinuously_def)
  then show ?thesis by blast
qed

lemma emits_return: "emits P (io_return x)"
  by (simp add: emits_def io_return_def)

lemma emits_throw: "emits P (io_throw e)"
  by (simp add: emits_def io_throw_def)

lemma emits_io_of: "emits P (io_of r)"
  by (simp add: emits_def io_of_def)

lemma emits_emit: "P ev \<Longrightarrow> emits P (emit ev)"
  by (simp add: emits_def emit_def)


lemma emits_bind: "emits P m \<Longrightarrow> (\<And>x. emits P (f x)) \<Longrightarrow> emits P (io_bind m f)"
  unfolding emits_def io_bind_def
  by (auto split: prod.splits sum.splits) (metis snd_conv)+

lemma emits_catch: "emits P m \<Longrightarrow> (\<And>e. emits P (h e)) \<Longrightarrow> emits P (try_catch m h)"
  unfolding emits_def try_catch_def
  by (auto split: prod.splits sum.splits) (metis snd_conv)+


lemma emits_if: "emits P m \<Longrightarrow> emits P n \<Longrightarrow> emits P (if c then m else n)"
  by simp


lemma emits_getPi: "emits P (getPiWalletAddressFromSeed L m)"
  by (simp add: getPiWalletAddressFromSeed_def Let_def emits_return emits_throw)



lemma emits_processAccount_catch:
  "P (ConsoleError (RateLimited ident)) \<Longrightarrow> (\<And>d. P (ConsoleError (ProcessingFailed ident d))) \<Longrightarrow>
   emits P (processAccount_catch ident e)"
  by (simp add: processAccount_catch_def Let_def emits_emit)

lemma processRecord_shape:
  "ev \<in> set (snd (processRecord L srv tg a ident receiver mk sk cb w)) \<Longrightarrow>
   inner_of ev = Some tx \<Longrightarrow> shape receiver cb tx"
  unfolding processRecord_def sendTelegramMessage_def buildInnerTransaction_def
    buildFeeBumpTransaction_def sign_transaction_def sign_fee_bump_def
    io_bind_def try_catch_def emit_def call_def io_return_def io_throw_def Let_def shape_def
  by (auto split: sum.splits prod.splits option.splits if_splits)

section \<open>The scenarios, evaluated\<close>

lemma demo_strings_distinct:
  "demoSponsor \<noteq> demoMain" "demoBad \<noteq> demoMain" "demoBad \<noteq> demoSponsor"
  "demoMain \<noteq> []" "demoSponsor \<noteq> []" "demoBad \<noteq> []"
  by (simp_all add: demoMain_def demoSponsor_def demoBad_def ascii_def)

lemma demo_valid:
  "validateMnemonic demoLibs demoMain" "validateMnemonic demoLibs demoSponsor"
  "\<not> validateMnemonic demoLibs demoBad"
  by (simp_all add: demoLibs_def demo_strings_distinct)

lemma to_hex_1: "to_hex [1] = ascii ''01''"
  by (simp add: to_hex_def hex_digit_def ascii_def)

lemma to_hex_2: "to_hex [2] \<noteq> ascii ''01''"
  by (simp add: to_hex_def hex_digit_def ascii_def)

lemma demo_secrets_distinct: "ascii ''SSPON'' \<noteq> ascii ''SMAIN''"
  by (simp add: ascii_def)

lemma demo_keypairs:
  "derivedKeypair demoLibs demoMain = mainKp" "derivedKeypair demoLibs demoSponsor = sponsorKp"
  by (simp_all add: derivedKeypair_def demoLibs_def demo_strings_distinct to_hex_1 to_hex_2
        mainKp_def sponsorKp_def demo_secrets_distinct)

lemma getPi_valid:
  "validateMnemonic L m \<Longrightarrow>
   getPiWalletAddressFromSeed L m w =
     (Inr (Wallet
        (kp_publicKey (fromRawEd25519Seed L (derivePath L derivationPath (to_hex (mnemonicToSeed L m)))))
        (kp_secret (fromRawEd25519Seed L (derivePath L derivationPath (to_hex (mnemonicToSeed L m)))))),
      [])"
  by (simp add: getPiWalletAddressFromSeed_def Let_def io_return_def)

lemma getPi_invalid:
  "\<not> validateMnemonic L m \<Longrightarrow> getPiWalletAddressFromSeed L m w = (Inl (mnemonicError m), [])"
  by (simp add: getPiWalletAddressFromSeed_def io_throw_def)

lemma io_bind_pure: "m w = (Inr x, []) \<Longrightarrow> io_bind m f w = f x w"
  by (simp add: io_bind_def split: prod.splits)

lemma processAccount_try_valid:
  assumes "validateMnemonic L m" "validateMnemonic L s"
  shows "processAccount_try L srv tg a ident m s r w =
     io_bind (call (ClaimableBalancesCall (kp_publicKey (derivedKeypair L m)) 10)
                (\<lambda>w. claimableBalances srv w (kp_publicKey (derivedKeypair L m)) 10))
       (\<lambda>records.
          if length records = 0 then emit (ConsoleLog (NoClaimable ident))
          else for_of (processRecord L srv tg a ident r (derivedKeypair L m) (derivedKeypair L s))
                 records) w"
  unfolding processAccount_try_def
  by (simp only: io_bind_pure [OF getPi_valid [OF assms(1)]] io_bind_pure [OF getPi_valid [OF assms(2)]]
        Let_def derivedKeypair_def wallet.sel)

lemma processAccount_try_invalid_main:
  "\<not> validateMnemonic L m \<Longrightarrow>
   processAccount_try L srv tg a ident m s r w = (Inl (mnemonicError m), [])"
  by (simp add: processAccount_try_def io_bind_def getPi_invalid)

lemma processAccount_try_invalid_sponsor:
  "validateMnemonic L m \<Longrightarrow> \<not> validateMnemonic L s \<Longrightarrow>
   processAccount_try L srv tg a ident m s r w = (Inl (mnemonicError s), [])"
  by (simp add: processAccount_try_def io_bind_pure [OF getPi_valid] io_bind_Inl [OF getPi_invalid])

lemma feeBumpFee_100: "feeBumpFee 100 = ascii ''12000''"
proof -
  have "feeBumpFee 100 = decimal (120 * 100)"
    by (rule feeBumpFee_safe) simp
  then show ?thesis
    by (simp add: decimal_small decimal_big digit_def ascii_def)
qed

lemma bignumber_decimal: "bignumber (decimal n) = Some n"
  using decimal_digits [of n]
  by (simp add: bignumber_def decimal_nonempty parse_digits_decimal list_all_iff)

lemma bignumber_12000: "bignumber (ascii ''12000'') = Some 12000"
proof -
  have "decimal 12000 = ascii ''12000''"
    by (simp add: decimal_small decimal_big digit_def ascii_def)
  then show ?thesis using bignumber_decimal [of 12000] by simp
qed

lemma decimal_36000: "decimal 36000 = ascii ''36000''"
  by (simp add: decimal_small decimal_big digit_def ascii_def)

lemma demo_record_rejected:
  "processRecord demoLibs rejectingServer demoTelegram demoAccount (ascii ''acct1'') (ascii ''GRECV'')
     mainKp sponsorKp cb1 w =
   (Inl rejection,
    [ConsoleLog (Found (ascii ''acct1'') (ascii ''10.5'')),
     LoadAccountCall (ascii ''GMAIN''),
     SignTransaction demoInner mainKp,
     FetchBaseFeeCall,
     SignFeeBump demoFeeBump sponsorKp,
     ConsoleLog (Sending (ascii ''acct1'')),
     SubmitTransactionCall (demoFeeBump\<lparr>fb_signatures := [sponsorKp]\<rparr>)])"
  by (simp add: processRecord_def io_bind_def emit_def call_def rejectingServer_def demoLibs_def
      buildInnerTransaction_def buildFeeBumpTransaction_def sign_transaction_def sign_fee_bump_def
      io_return_def cb1_def mainKp_def sponsorKp_def demoInner_def demoFeeBump_def
      networkPassphrase0_def feeBumpFee_100 bignumber_12000 decimal_36000)

section \<open>Lemmas on processAccount\<close>

lemma for_of_fail_at:
  assumes "for_of f pre w = (Inr (), es1)" "f x (w @ es1) = (Inl e, es2)"
  shows "for_of f (pre @ x # rest) w = (Inl e, es1 @ es2)"
  using assms
proof (induction pre arbitrary: w es1)
  case Nil
  then show ?case by (simp add: io_return_def io_bind_def)
next
  case (Cons p pre)
  obtain res esp where p: "f p w = (res, esp)" by (cases "f p w")
  show ?case
  proof (cases res)
    case (Inl e')
    with p Cons.prems(1) show ?thesis by (simp add: io_bind_def)
  next
    case (Inr u)
    with p Cons.prems(1) obtain es' where
      t: "for_of f pre (w @ esp) = (Inr (), es')" and es: "es1 = esp @ es'"
      by (auto simp: io_bind_def split: prod.splits)
    from Cons.prems(2) es have "f x ((w @ esp) @ es') = (Inl e, es2)" by simp
    from Cons.IH [OF t this] p Inr es show ?thesis by (simp add: io_bind_def)
  qed
qed

lemma demo_identifiers:
  "accountIdentifier demoAccount = Inr (ascii ''acct1'')"
  "accountIdentifier namelessAccount = Inr (ascii ''alpha bravo cha...'')"
  "accountIdentifier badSeedAccount = Inr (ascii ''not a real seed...'')"
  "accountIdentifier brokenAccount = Inl typeError"
  by (simp_all add: accountIdentifier_def demoAccount_def namelessAccount_def badSeedAccount_def
        brokenAccount_def truthy_def substring0_def demoMain_def demoBad_def ascii_def)

lemma processAccount_quiet:
  assumes ident: "accountIdentifier a = Inr ident"
    and cfg: "mainMnemonic a = Some demoMain" "sponsorMnemonic a = Some demoSponsor"
       "receiverAddress a = Some r" "r \<noteq> []"
  shows "processAccount demoLibs quietServer demoTelegram a w =
     (Inr (), [ConsoleLog (Processing ident), ClaimableBalancesCall (ascii ''GMAIN'') 10,
               ConsoleLog (NoClaimable ident)])"
proof -
  have "processAccount_try demoLibs quietServer demoTelegram a ident demoMain demoSponsor r w' =
      (Inr (), [ClaimableBalancesCall (ascii ''GMAIN'') 10, ConsoleLog (NoClaimable ident)])" for w'
    by (simp add: processAccount_try_valid [OF demo_valid(1,2)] demo_keypairs io_bind_def call_def
        quietServer_def emit_def mainKp_def)
  then show ?thesis
    by (simp add: processAccount_complete [OF ident cfg(1) demo_strings_distinct(4) cfg(2)
          demo_strings_distinct(5) cfg(3,4)] try_catch_def)
qed

lemma emits_weaken: "emits P m \<Longrightarrow> (\<And>ev. P ev \<Longrightarrow> Q ev) \<Longrightarrow> emits Q m"
  by (simp add: emits_def)




lemma io_bind_io_of_Inr: "io_bind (io_of (Inr x)) f = f x"
  by (rule ext) (simp add: io_bind_def io_of_def)

lemma io_bind_io_of_Inl: "io_bind (io_of (Inl e)) f = io_throw e"
  by (rule ext) (simp add: io_bind_def io_of_def io_throw_def)



lemma processAccount_catch_mnemonicError:
  "processAccount_catch ident (mnemonicError x) w =
     (Inr (), [ConsoleError (ProcessingFailed ident (Msg (message (mnemonicError x))))])"
  by (simp add: processAccount_catch_apply mnemonicError_def error_result_codes_def)

lemma processAccount_invalid_mnemonic:
  assumes ident: "accountIdentifier a = Inr ident"
    and cfg: "mainMnemonic a = Some m" "m \<noteq> []" "sponsorMnemonic a = Some s" "s \<noteq> []"
      "receiverAddress a = Some r" "r \<noteq> []"
    and bad: "\<not> validateMnemonic L m \<or> \<not> validateMnemonic L s"
  shows "processAccount L srv tg a w =
     (Inr (), [ConsoleLog (Processing ident),
               ConsoleError (ProcessingFailed ident
                 (Msg (message (mnemonicError (if validateMnemonic L m then s else m)))))])"
proof (cases "validateMnemonic L m")
  case True
  with bad have s: "\<not> validateMnemonic L s" by simp
  show ?thesis
    using True
    by (simp add: processAccount_complete [OF ident cfg] try_catch_def
        processAccount_try_invalid_sponsor [OF True s] processAccount_catch_mnemonicError)
next
  case False
  then show ?thesis
    by (simp add: processAccount_complete [OF ident cfg] try_catch_def
        processAccount_try_invalid_main [OF False] processAccount_catch_mnemonicError)
qed

lemma network_needs_valid_mnemonics:
  assumes "ev \<in> set (snd (processAccount L srv tg a w))" "is_network ev \<or> is_signing ev"
  shows "\<exists>m s. mainMnemonic a = Some m \<and> validateMnemonic L m
             \<and> sponsorMnemonic a = Some s \<and> validateMnemonic L s"
proof (cases "accountIdentifier a")
  case (Inl e)
  with assms show ?thesis by (simp add: processAccount_def io_bind_io_of_Inl io_throw_def)
next
  case (Inr ident)
  show ?thesis
  proof (cases "\<not> truthy (mainMnemonic a) \<or> \<not> truthy (sponsorMnemonic a) \<or> \<not> truthy (receiverAddress a)")
    case True
    from processAccount_incomplete [OF Inr True, of L srv tg w] assms show ?thesis by auto
  next
    case False
    then obtain m s r where c: "mainMnemonic a = Some m" "m \<noteq> []" "sponsorMnemonic a = Some s"
      "s \<noteq> []" "receiverAddress a = Some r" "r \<noteq> []"
      by (auto simp: truthy_def split: option.splits)
    show ?thesis
    proof (cases "validateMnemonic L m \<and> validateMnemonic L s")
      case True
      with c show ?thesis by simp
    next
      case False
      then have "\<not> validateMnemonic L m \<or> \<not> validateMnemonic L s" by simp
      from processAccount_invalid_mnemonic [OF Inr c this, of srv tg w] assms show ?thesis by auto
    qed
  qed
qed

lemma demo_try_rejected:
  "processAccount_try demoLibs rejectingServer demoTelegram demoAccount (ascii ''acct1'')
      demoMain demoSponsor (ascii ''GRECV'') w =
    (Inl rejection,
      [ClaimableBalancesCall (ascii ''GMAIN'') 10,
       ConsoleLog (Found (ascii ''acct1'') (ascii ''10.5'')),
       LoadAccountCall (ascii ''GMAIN''),
       SignTransaction demoInner mainKp,
       FetchBaseFeeCall,
       SignFeeBump demoFeeBump sponsorKp,
       ConsoleLog (Sending (ascii ''acct1'')),
       SubmitTransactionCall (demoFeeBump\<lparr>fb_signatures := [sponsorKp]\<rparr>)])"
  by (simp add: processAccount_try_valid [OF demo_valid(1,2)] demo_keypairs io_bind_def call_def
        rejectingServer_def mainKp_def
        demo_record_rejected [unfolded rejectingServer_def mainKp_def])

lemma round_double_example: "round_double 72057594037928040 = 72057594037928032"
  by (simp add: num_eval)

lemma shortest_example: "shortest 72057594037928032 = 72057594037928030"
  by (simp add: shortest_def num_eval)

lemma js_toString_example: "js_toString (Some 72057594037928032) = ascii ''72057594037928030''"
  by (simp add: js_toString_def shortest_example decimal_small decimal_big digit_def ascii_def)

lemma emits_bind_call:
  "P ev \<Longrightarrow> (\<And>h x. respond h = Inr x \<Longrightarrow> emits P (f x)) \<Longrightarrow> emits P (io_bind (call ev respond) f)"
  unfolding emits_def io_bind_def call_def
  by (auto split: prod.splits sum.splits) (metis snd_conv)+

lemma emits_for_of_set: "(\<And>x. x \<in> set xs \<Longrightarrow> emits P (f x)) \<Longrightarrow> emits P (for_of f xs)"
  by (induction xs) (auto intro: emits_return emits_bind)

lemma emits_processAccount_try_returned:
  assumes "\<And>mk sk cb h pk recs. claimableBalances srv h pk 10 = Inr recs \<Longrightarrow> cb \<in> set recs \<Longrightarrow>
      emits P (processRecord L srv tg a ident r mk sk cb)"
    and "\<And>pk. P (ClaimableBalancesCall pk 10)"
    and "P (ConsoleLog (NoClaimable ident))"
  shows "emits P (processAccount_try L srv tg a ident m s r)"
  unfolding processAccount_try_def Let_def
  by (intro emits_bind emits_getPi emits_bind_call emits_if emits_emit emits_for_of_set assms)

lemma emits_processAccount_returned:
  assumes line: "\<And>ident. accountIdentifier a = Inr ident \<Longrightarrow>
        P (ConsoleLog (Processing ident)) \<and> P (ConsoleError (ConfigIncomplete ident))
      \<and> P (ConsoleError (RateLimited ident)) \<and> (\<forall>d. P (ConsoleError (ProcessingFailed ident d)))
      \<and> P (ConsoleLog (NoClaimable ident))"
    and rec: "\<And>ident r mk sk cb h pk recs. receiverAddress a = Some r \<Longrightarrow>
        claimableBalances srv h pk 10 = Inr recs \<Longrightarrow> cb \<in> set recs \<Longrightarrow>
        emits P (processRecord L srv tg a ident r mk sk cb)"
    and q: "\<And>pk. P (ClaimableBalancesCall pk 10)"
  shows "emits P (processAccount L srv tg a)"
proof (cases "accountIdentifier a")
  case (Inl e)
  then show ?thesis
    by (simp add: processAccount_def io_bind_io_of_Inl emits_throw)
next
  case (Inr ident)
  note l = line [OF Inr]
  have t: "emits P (try_catch (processAccount_try L srv tg a ident m s r) (processAccount_catch ident))"
    if "receiverAddress a = Some r" for m s r
    using l
    by (intro emits_catch emits_processAccount_try_returned emits_processAccount_catch rec [OF that] q)
      simp_all
  show ?thesis
    unfolding processAccount_def Inr io_bind_io_of_Inr
    using l by (auto intro!: emits_bind emits_emit t split: option.splits)
qed

lemma processRecord_signs_inner:
  assumes "loadAccount srv
        (w @ [ConsoleLog (Found ident (cb_amount cb)), LoadAccountCall (kp_publicKey mk)])
        (kp_publicKey mk) = Inr mainAccount"
    and "claimOpError L (cb_id cb) = None" "paymentOpError L receiver (cb_amount cb) = None"
  shows "\<exists>rest. snd (processRecord L srv tg a ident receiver mk sk cb w) =
     [ConsoleLog (Found ident (cb_amount cb)),
      LoadAccountCall (kp_publicKey mk),
      SignTransaction
        \<lparr>source = mainAccount, fee = ascii ''0'', networkPassphrase = networkPassphrase0,
         operations = [ClaimClaimableBalance (cb_id cb), Payment receiver Native (cb_amount cb)],
         timeout = 60, signatures = []\<rparr> mk,
      FetchBaseFeeCall] @ rest"
  using assms
  unfolding processRecord_def buildInnerTransaction_def sign_transaction_def
    io_bind_def emit_def call_def io_return_def
  by (simp add: case_prod_beta split: sum.splits)

lemma processRecord_submits:
  assumes load: "loadAccount srv
        (w @ [ConsoleLog (Found ident (cb_amount cb)), LoadAccountCall (kp_publicKey mk)])
        (kp_publicKey mk) = Inr mainAccount"
    and ops: "claimOpError L (cb_id cb) = None" "paymentOpError L receiver (cb_amount cb) = None"
    and tx: "tx = \<lparr>source = mainAccount, fee = ascii ''0'', networkPassphrase = networkPassphrase0,
         operations = [ClaimClaimableBalance (cb_id cb), Payment receiver Native (cb_amount cb)],
         timeout = 60, signatures = []\<rparr>"
    and fee: "fetchBaseFee srv
        (w @ [ConsoleLog (Found ident (cb_amount cb)), LoadAccountCall (kp_publicKey mk),
              SignTransaction tx mk, FetchBaseFeeCall]) = Inr b"
    and small: "120 * b < 2 ^ 53"
    and bump: "feeBumpError L (kp_publicKey sk) (decimal (120 * b)) (tx\<lparr>signatures := [mk]\<rparr>) = None"
    and fb: "fb = \<lparr>feeSource = kp_publicKey sk, fb_fee = decimal (360 * b),
         innerTransaction = tx\<lparr>signatures := [mk]\<rparr>,
         fb_networkPassphrase = networkPassphrase0, fb_signatures = []\<rparr>"
  shows "\<exists>rest. snd (processRecord L srv tg a ident receiver mk sk cb w) =
     [ConsoleLog (Found ident (cb_amount cb)),
      LoadAccountCall (kp_publicKey mk),
      SignTransaction tx mk,
      FetchBaseFeeCall,
      SignFeeBump fb sk,
      ConsoleLog (Sending ident),
      SubmitTransactionCall (fb\<lparr>fb_signatures := [sk]\<rparr>)] @ rest"
proof -
  have f: "feeBumpFee b = decimal (120 * b)" using small by (rule feeBumpFee_safe)
  have t: "120 * b * 3 = 360 * b" by simp
  show ?thesis
    using load ops fee bump
    unfolding processRecord_def buildInnerTransaction_def sign_transaction_def
      buildFeeBumpTransaction_def sign_fee_bump_def f tx fb
      io_bind_def emit_def call_def io_return_def
    by (simp add: case_prod_beta f bignumber_decimal t split: sum.splits)
qed

lemma demo_try_query_fails:
  assumes "claimableBalances srv
      (w @ [ClaimableBalancesCall (ascii ''GMAIN'') 10]) (ascii ''GMAIN'') 10 = Inl e"
  shows "processAccount_try demoLibs srv demoTelegram demoAccount (ascii ''acct1'')
      demoMain demoSponsor (ascii ''GRECV'') w = (Inl e, [ClaimableBalancesCall (ascii ''GMAIN'') 10])"
  using assms
  by (simp add: processAccount_try_valid [OF demo_valid(1,2)] demo_keypairs io_bind_def call_def
        mainKp_def)

text \<open>
  Beyond \<open>2 ^ 53\<close> the product of line 99 is rounded: \<open>120 * 600479950316067\<close> is
  \<open>72057594037928040\<close>, which is no double; it becomes \<open>72057594037928032\<close> and is printed
  as \<open>72057594037928030\<close>.
\<close>

lemma feeBumpFee_rounds_beyond_2_53:
  "feeBumpFee 600479950316067 \<noteq> decimal (120 * 600479950316067)"
proof -
  have "js_parseInt (js_toString (Some 600479950316067)) = Some 600479950316067"
    by (simp add: js_toString_safe js_parseInt_decimal round_double_small)
  then have "feeBumpFee 600479950316067 = ascii ''72057594037928030''"
    by (simp add: feeBumpFee_def js_mul_def round_double_example js_toString_example)
  moreover have "decimal (120 * 600479950316067) = ascii ''72057594037928040''"
    by (simp add: decimal_small decimal_big digit_def ascii_def)
  ultimately show ?thesis by (simp add: ascii_def)
qed

section \<open>The claims\<close>

text \<open>
  Claim C1, as the code has it. The \<open>try\<close> block encloses the whole loop over the balance
  records, so a record whose processing throws ends the pass over this account: with the
  configuration complete, both mnemonics valid and the query answered by the records
  \<open>pre @ cb # rest\<close>, if the records of \<open>pre\<close> are processed without error and the
  processing of \<open>cb\<close> throws \<open>e\<close>, then \<open>processAccount\<close> returns normally, and what it
  did is exactly: the header line, the query, the events of \<open>pre\<close>, the events of \<open>cb\<close> up
  to the throw, and one error line. The failed record is not tried again, and no record of
  \<open>rest\<close> is touched in this cycle; the orchestrator goes on with the next account.
\<close>

theorem failed_record_ends_account_pass:
  assumes ident: "accountIdentifier a = Inr ident"
    and cfg: "mainMnemonic a = Some m" "m \<noteq> []" "sponsorMnemonic a = Some s" "s \<noteq> []"
      "receiverAddress a = Some r" "r \<noteq> []"
    and valid: "validateMnemonic L m" "validateMnemonic L s"
    and query: "claimableBalances srv
        (w @ [ConsoleLog (Processing ident),
              ClaimableBalancesCall (kp_publicKey (derivedKeypair L m)) 10])
        (kp_publicKey (derivedKeypair L m)) 10 = Inr (pre @ cb # rest)"
    and before: "for_of (processRecord L srv tg a ident r (derivedKeypair L m) (derivedKeypair L s)) pre
        (w @ [ConsoleLog (Processing ident),
              ClaimableBalancesCall (kp_publicKey (derivedKeypair L m)) 10]) = (Inr (), es1)"
    and fails: "processRecord L srv tg a ident r (derivedKeypair L m) (derivedKeypair L s) cb
        ((w @ [ConsoleLog (Processing ident),
               ClaimableBalancesCall (kp_publicKey (derivedKeypair L m)) 10]) @ es1) = (Inl e, es2)"
  shows "\<exists>line. processAccount L srv tg a w =
           (Inr (),
            [ConsoleLog (Processing ident),
             ClaimableBalancesCall (kp_publicKey (derivedKeypair L m)) 10]
            @ es1 @ es2 @ [ConsoleError line])"
proof -
  let ?pk = "kp_publicKey (derivedKeypair L m)"
  let ?w1 = "w @ [ConsoleLog (Processing ident)]"
  have loop: "for_of (processRecord L srv tg a ident r (derivedKeypair L m) (derivedKeypair L s))
        (pre @ cb # rest) (?w1 @ [ClaimableBalancesCall ?pk 10]) = (Inl e, es1 @ es2)"
    using for_of_fail_at [OF before fails] by simp
  have body: "processAccount_try L srv tg a ident m s r ?w1
        = (Inl e, ClaimableBalancesCall ?pk 10 # es1 @ es2)"
    using query loop
    by (simp add: processAccount_try_valid [OF valid] io_bind_def call_def)
  obtain line where h: "processAccount_catch ident e
        (?w1 @ ClaimableBalancesCall ?pk 10 # es1 @ es2) = (Inr (), [ConsoleError line])"
    by (simp add: processAccount_catch_apply)
  have "processAccount L srv tg a w =
      (Inr (), ConsoleLog (Processing ident) # (ClaimableBalancesCall ?pk 10 # es1 @ es2) @ [ConsoleError line])"
    using body h by (simp add: processAccount_complete [OF ident cfg] try_catch_def)
  then show ?thesis by simp
qed

text \<open>The theorem at the ledger that rejects every submission: the first of two records fails.\<close>

theorem failed_record_ends_account_pass_witness:
  "\<exists>line. processAccount demoLibs rejectingServer demoTelegram demoAccount [] =
     (Inr (),
      [ConsoleLog (Processing (ascii ''acct1'')), ClaimableBalancesCall (ascii ''GMAIN'') 10]
      @ [] @
      [ConsoleLog (Found (ascii ''acct1'') (ascii ''10.5'')),
       LoadAccountCall (ascii ''GMAIN''),
       SignTransaction demoInner mainKp,
       FetchBaseFeeCall,
       SignFeeBump demoFeeBump sponsorKp,
       ConsoleLog (Sending (ascii ''acct1'')),
       SubmitTransactionCall (demoFeeBump\<lparr>fb_signatures := [sponsorKp]\<rparr>)]
      @ [ConsoleError line])"
proof -
  have ident: "accountIdentifier demoAccount = Inr (ascii ''acct1'')"
    by (simp add: accountIdentifier_def demoAccount_def truthy_def ascii_def)
  have pk: "kp_publicKey (derivedKeypair demoLibs demoMain) = ascii ''GMAIN''"
    by (simp add: demo_keypairs mainKp_def)
  have r: "ascii ''GRECV'' \<noteq> []" by (simp add: ascii_def)
  have cfg: "mainMnemonic demoAccount = Some demoMain"
    "sponsorMnemonic demoAccount = Some demoSponsor"
    "receiverAddress demoAccount = Some (ascii ''GRECV'')"
    by (simp_all add: demoAccount_def)
  have query: "claimableBalances rejectingServer
        ([] @ [ConsoleLog (Processing (ascii ''acct1'')),
              ClaimableBalancesCall (kp_publicKey (derivedKeypair demoLibs demoMain)) 10])
        (kp_publicKey (derivedKeypair demoLibs demoMain)) 10 = Inr ([] @ cb1 # [cb2])"
    by (simp add: rejectingServer_def)
  have before: "for_of (processRecord demoLibs rejectingServer demoTelegram demoAccount (ascii ''acct1'')
        (ascii ''GRECV'') (derivedKeypair demoLibs demoMain) (derivedKeypair demoLibs demoSponsor)) []
        ([] @ [ConsoleLog (Processing (ascii ''acct1'')),
              ClaimableBalancesCall (kp_publicKey (derivedKeypair demoLibs demoMain)) 10]) = (Inr (), [])"
    by (simp add: io_return_def)
  note fails = demo_record_rejected [where w = "([] @ [ConsoleLog (Processing (ascii ''acct1'')),
      ClaimableBalancesCall (kp_publicKey (derivedKeypair demoLibs demoMain)) 10]) @ []",
      folded demo_keypairs]
  show ?thesis
    using failed_record_ends_account_pass [OF ident cfg(1) demo_strings_distinct(4) cfg(2)
        demo_strings_distinct(5) cfg(3) r demo_valid(1,2) query before fails]
    by (simp only: demo_keypairs pk [unfolded demo_keypairs])
qed

text \<open>
  Claim C1 as stated fails: the query returns \<open>cb1\<close> and \<open>cb2\<close>, the submission for \<open>cb1\<close> is
  rejected, and the pass ends with the error line; nothing is done for \<open>cb2\<close>.
\<close>

theorem second_record_skipped_counterexample:
  "claimableBalances rejectingServer
     [ConsoleLog (Processing (ascii ''acct1'')), ClaimableBalancesCall (ascii ''GMAIN'') 10]
     (ascii ''GMAIN'') 10 = Inr [cb1, cb2]
   \<and> processAccount demoLibs rejectingServer demoTelegram demoAccount [] =
     (Inr (),
      [ConsoleLog (Processing (ascii ''acct1'')),
       ClaimableBalancesCall (ascii ''GMAIN'') 10,
       ConsoleLog (Found (ascii ''acct1'') (ascii ''10.5'')),
       LoadAccountCall (ascii ''GMAIN''),
       SignTransaction demoInner mainKp,
       FetchBaseFeeCall,
       SignFeeBump demoFeeBump sponsorKp,
       ConsoleLog (Sending (ascii ''acct1'')),
       SubmitTransactionCall (demoFeeBump\<lparr>fb_signatures := [sponsorKp]\<rparr>),
       ConsoleError (ProcessingFailed (ascii ''acct1'')
         (Codes (ResultCodes (ascii ''tx_failed'') [])))])"
proof -
  have ident: "accountIdentifier demoAccount = Inr (ascii ''acct1'')"
    by (simp add: accountIdentifier_def demoAccount_def truthy_def ascii_def)
  have r: "ascii ''GRECV'' \<noteq> []" by (simp add: ascii_def)
  have cfg: "mainMnemonic demoAccount = Some demoMain" "demoMain \<noteq> []"
    "sponsorMnemonic demoAccount = Some demoSponsor" "demoSponsor \<noteq> []"
    "receiverAddress demoAccount = Some (ascii ''GRECV'')" "ascii ''GRECV'' \<noteq> []"
    by (simp_all add: demoAccount_def demo_strings_distinct r)
  note body = demo_try_rejected [of "[ConsoleLog (Processing (ascii ''acct1''))]"]
  have c: "processAccount_catch (ascii ''acct1'') rejection w =
      (Inr (), [ConsoleError (ProcessingFailed (ascii ''acct1'')
         (Codes (ResultCodes (ascii ''tx_failed'') [])))])" for w
    by (simp add: processAccount_catch_apply rejection_def error_result_codes_def)
  show ?thesis
    using processAccount_complete [OF ident cfg, of demoLibs rejectingServer demoTelegram "[]"]
    using body by (simp add: try_catch_def c rejectingServer_def)
qed

text \<open>
  Claim C2 at the configuration \<open>[brokenAccount, demoAccount]\<close>, whose first entry has
  neither a name nor a main mnemonic: the \<open>TypeError\<close> of line 50 is thrown before the
  validation of line 55 and outside the \<open>try\<close>, leaves \<open>processAccount\<close> and both loops,
  and is logged as fatal by line 158. The valid second account is never processed.
\<close>

theorem broken_account_stops_the_bot:
  "program demoLibs quietServer demoTelegram (Inr (Some [brokenAccount, demoAccount])) =
     Some [ConsoleLog Starting, ConsoleLog ReadingConfig, ConsoleLog (ConfigLoaded 2),
           ConsoleLog CycleStart, ConsoleError (Fatal typeError)]"
proof -
  have "processAccount demoLibs quietServer demoTelegram brokenAccount w = (Inl typeError, [])" for w
    by (rule processAccount_typeError) (simp_all add: brokenAccount_def demoAccount_def truthy_def)
  then have "runCycle demoLibs quietServer demoTelegram [brokenAccount, demoAccount] w
      = (Inl typeError, [ConsoleLog CycleStart])" for w
    by (simp add: runCycle_def io_bind_def emit_def)
  then have "cycles demoLibs quietServer demoTelegram [brokenAccount, demoAccount]
      [ConsoleLog Starting] [ConsoleLog ReadingConfig, ConsoleLog (ConfigLoaded 2)]
      = Some (typeError, [ConsoleLog ReadingConfig, ConsoleLog (ConfigLoaded 2), ConsoleLog CycleStart])"
    by (subst cycles.simps) simp
  then show ?thesis
    by (simp add: program_def runAllBotsContinuously_def numeral_2_eq_2)
qed

text \<open>
  Claim C3, as the code has it. Line 55 checks the three fields \<open>mainMnemonic\<close>,
  \<open>sponsorMnemonic\<close> and \<open>receiverAddress\<close>; the name is optional. If one of the three is
  missing (absent or empty) and the display identifier can be computed (the name is
  non-empty, or \<open>mainMnemonic\<close> is present), \<open>processAccount\<close> logs the header line and the
  error line naming the account and returns; it derives no key and sends no request.
\<close>

theorem incomplete_config_is_skipped:
  assumes "accountIdentifier a = Inr ident"
    and "\<not> truthy (mainMnemonic a) \<or> \<not> truthy (sponsorMnemonic a) \<or> \<not> truthy (receiverAddress a)"
  shows "processAccount L srv tg a w =
           (Inr (), [ConsoleLog (Processing ident), ConsoleError (ConfigIncomplete ident)])"
  using assms by (rule processAccount_incomplete)

text \<open>The theorem at an account with no receiver address.\<close>

theorem incomplete_config_is_skipped_witness:
  "processAccount demoLibs quietServer demoTelegram (demoAccount\<lparr>receiverAddress := None\<rparr>) [] =
     (Inr (), [ConsoleLog (Processing (ascii ''acct1'')),
               ConsoleError (ConfigIncomplete (ascii ''acct1''))])"
proof -
  have i: "accountIdentifier (demoAccount\<lparr>receiverAddress := None\<rparr>) = Inr (ascii ''acct1'')"
    by (simp add: accountIdentifier_def demoAccount_def truthy_def ascii_def)
  have m: "\<not> truthy (mainMnemonic (demoAccount\<lparr>receiverAddress := None\<rparr>))
      \<or> \<not> truthy (sponsorMnemonic (demoAccount\<lparr>receiverAddress := None\<rparr>))
      \<or> \<not> truthy (receiverAddress (demoAccount\<lparr>receiverAddress := None\<rparr>))"
    by (simp add: truthy_def)
  show ?thesis by (rule incomplete_config_is_skipped [OF i m])
qed

text \<open>
  Claim C3 as stated fails for the name: an account with no name and the three other fields
  set is processed, no error is logged and the ledger is queried.
\<close>

theorem missing_name_is_processed_counterexample:
  "name namelessAccount = None
   \<and> processAccount demoLibs quietServer demoTelegram namelessAccount [] =
     (Inr (), [ConsoleLog (Processing (ascii ''alpha bravo cha...'')),
               ClaimableBalancesCall (ascii ''GMAIN'') 10,
               ConsoleLog (NoClaimable (ascii ''alpha bravo cha...''))])"
proof -
  have "ascii ''GRECV'' \<noteq> []" by (simp add: ascii_def)
  then show ?thesis
    using processAccount_quiet [OF demo_identifiers(2), of "ascii ''GRECV''" "[]"]
    by (simp add: namelessAccount_def demoAccount_def)
qed

text \<open>
  Claim C4, as the code has it. Line 99 computes \<open>120 * b\<close> on JavaScript Numbers
  (doubles) and hands it to the fee-bump builder as the fee for one operation; the builder
  declares that fee times the number of inner operations plus one. So, for a record whose
  account state is loaded and whose operations are accepted, when the fee lookup answers
  \<open>b\<close> with \<open>120 * b < 2 ^ 53\<close> (every 32-bit base fee is one) and the builder accepts, the
  fee handed over is the decimal numeral of \<open>120 * b\<close>, exactly, and the fee-bump
  transaction that is signed by the sponsor and submitted declares \<open>360 * b\<close>.
\<close>

theorem fee_bump_declares_360_times_base_fee:
  assumes small: "120 * b < 2 ^ 53"
    and load: "loadAccount srv
        (w @ [ConsoleLog (Found ident (cb_amount cb)), LoadAccountCall (kp_publicKey mainKeypair)])
        (kp_publicKey mainKeypair) = Inr mainAccount"
    and ops: "claimOpError L (cb_id cb) = None" "paymentOpError L receiver (cb_amount cb) = None"
    and tx: "tx = \<lparr>source = mainAccount, fee = ascii ''0'', networkPassphrase = networkPassphrase0,
         operations = [ClaimClaimableBalance (cb_id cb), Payment receiver Native (cb_amount cb)],
         timeout = 60, signatures = []\<rparr>"
    and fee: "fetchBaseFee srv
        (w @ [ConsoleLog (Found ident (cb_amount cb)), LoadAccountCall (kp_publicKey mainKeypair),
              SignTransaction tx mainKeypair, FetchBaseFeeCall]) = Inr b"
    and bump: "feeBumpError L (kp_publicKey sponsorKeypair) (decimal (120 * b))
        (tx\<lparr>signatures := [mainKeypair]\<rparr>) = None"
  shows "feeBumpFee b = decimal (120 * b)
     \<and> (\<exists>rest. snd (processRecord L srv tg a ident receiver mainKeypair sponsorKeypair cb w) =
         [ConsoleLog (Found ident (cb_amount cb)),
          LoadAccountCall (kp_publicKey mainKeypair),
          SignTransaction tx mainKeypair,
          FetchBaseFeeCall,
          SignFeeBump
            \<lparr>feeSource = kp_publicKey sponsorKeypair, fb_fee = decimal (360 * b),
             innerTransaction = tx\<lparr>signatures := [mainKeypair]\<rparr>,
             fb_networkPassphrase = networkPassphrase0, fb_signatures = []\<rparr> sponsorKeypair,
          ConsoleLog (Sending ident),
          SubmitTransactionCall
            \<lparr>feeSource = kp_publicKey sponsorKeypair, fb_fee = decimal (360 * b),
             innerTransaction = tx\<lparr>signatures := [mainKeypair]\<rparr>,
             fb_networkPassphrase = networkPassphrase0, fb_signatures = [sponsorKeypair]\<rparr>]
         @ rest)"
proof
  show "feeBumpFee b = decimal (120 * b)" using small by (rule feeBumpFee_safe)
next
  from processRecord_submits [OF load ops tx fee small bump refl, of tg a]
  show "\<exists>rest. snd (processRecord L srv tg a ident receiver mainKeypair sponsorKeypair cb w) =
         [ConsoleLog (Found ident (cb_amount cb)),
          LoadAccountCall (kp_publicKey mainKeypair),
          SignTransaction tx mainKeypair,
          FetchBaseFeeCall,
          SignFeeBump
            \<lparr>feeSource = kp_publicKey sponsorKeypair, fb_fee = decimal (360 * b),
             innerTransaction = tx\<lparr>signatures := [mainKeypair]\<rparr>,
             fb_networkPassphrase = networkPassphrase0, fb_signatures = []\<rparr> sponsorKeypair,
          ConsoleLog (Sending ident),
          SubmitTransactionCall
            \<lparr>feeSource = kp_publicKey sponsorKeypair, fb_fee = decimal (360 * b),
             innerTransaction = tx\<lparr>signatures := [mainKeypair]\<rparr>,
             fb_networkPassphrase = networkPassphrase0, fb_signatures = [sponsorKeypair]\<rparr>]
         @ rest"
    by simp
qed

text \<open>The theorem at the base fee 100: 12000 is handed over, 36000 is declared.\<close>

theorem fee_bump_declares_360_times_base_fee_witness:
  "feeBumpFee 100 = decimal 12000
   \<and> (\<exists>rest. snd (processRecord demoLibs rejectingServer demoTelegram demoAccount (ascii ''acct1'')
                   (ascii ''GRECV'') mainKp sponsorKp cb1 []) =
         [ConsoleLog (Found (ascii ''acct1'') (ascii ''10.5'')),
          LoadAccountCall (ascii ''GMAIN''),
          SignTransaction demoInner mainKp,
          FetchBaseFeeCall,
          SignFeeBump demoFeeBump sponsorKp,
          ConsoleLog (Sending (ascii ''acct1'')),
          SubmitTransactionCall (demoFeeBump\<lparr>fb_signatures := [sponsorKp]\<rparr>)] @ rest)"
proof -
  have small: "120 * (100::nat) < 2 ^ 53" by simp
  have load: "loadAccount rejectingServer
        ([] @ [ConsoleLog (Found (ascii ''acct1'') (cb_amount cb1)), LoadAccountCall (kp_publicKey mainKp)])
        (kp_publicKey mainKp) = Inr (LedgerAccount (ascii ''GMAIN'') (ascii ''7''))"
    by (simp add: rejectingServer_def mainKp_def)
  have ops: "claimOpError demoLibs (cb_id cb1) = None"
    "paymentOpError demoLibs (ascii ''GRECV'') (cb_amount cb1) = None"
    by (simp_all add: demoLibs_def)
  have tx: "demoInner = \<lparr>source = LedgerAccount (ascii ''GMAIN'') (ascii ''7''), fee = ascii ''0'',
         networkPassphrase = networkPassphrase0,
         operations = [ClaimClaimableBalance (cb_id cb1), Payment (ascii ''GRECV'') Native (cb_amount cb1)],
         timeout = 60, signatures = []\<rparr>"
    by (simp add: demoInner_def networkPassphrase0_def cb1_def)
  have fee: "fetchBaseFee rejectingServer
        ([] @ [ConsoleLog (Found (ascii ''acct1'') (cb_amount cb1)), LoadAccountCall (kp_publicKey mainKp),
              SignTransaction demoInner mainKp, FetchBaseFeeCall]) = Inr 100"
    by (simp add: rejectingServer_def)
  have bump: "feeBumpError demoLibs (kp_publicKey sponsorKp) (decimal (120 * 100))
        (demoInner\<lparr>signatures := [mainKp]\<rparr>) = None"
    by (simp add: demoLibs_def)
  have fb: "\<lparr>feeSource = kp_publicKey sponsorKp, fb_fee = decimal (360 * 100),
             innerTransaction = demoInner\<lparr>signatures := [mainKp]\<rparr>,
             fb_networkPassphrase = networkPassphrase0, fb_signatures = []\<rparr> = demoFeeBump"
    by (simp add: demoFeeBump_def sponsorKp_def networkPassphrase0_def decimal_36000)
  have fbs: "\<lparr>feeSource = kp_publicKey sponsorKp, fb_fee = decimal (360 * 100),
             innerTransaction = demoInner\<lparr>signatures := [mainKp]\<rparr>,
             fb_networkPassphrase = networkPassphrase0, fb_signatures = [sponsorKp]\<rparr>
           = demoFeeBump\<lparr>fb_signatures := [sponsorKp]\<rparr>"
    by (simp add: fb [symmetric])
  have c: "cb_amount cb1 = ascii ''10.5''" "kp_publicKey mainKp = ascii ''GMAIN''"
    by (simp_all add: cb1_def mainKp_def)
  from fee_bump_declares_360_times_base_fee [OF small load ops tx fee bump, of demoTelegram demoAccount]
  show ?thesis
    by (simp only: fb fbs c append_Nil) simp
qed

text \<open>
  Claim C4 as stated fails at the base fee 100: the fee-bump transaction that is signed
  declares 36000, not \<open>120 * 100\<close>.
\<close>

theorem declared_fee_is_tripled_counterexample:
  "fetchBaseFee rejectingServer
     [ConsoleLog (Found (ascii ''acct1'') (ascii ''10.5'')), LoadAccountCall (ascii ''GMAIN''),
      SignTransaction demoInner mainKp, FetchBaseFeeCall] = Inr 100
   \<and> SignFeeBump demoFeeBump sponsorKp \<in>
       set (snd (processRecord demoLibs rejectingServer demoTelegram demoAccount (ascii ''acct1'')
                  (ascii ''GRECV'') mainKp sponsorKp cb1 []))
   \<and> fb_fee demoFeeBump = ascii ''36000''
   \<and> fb_fee demoFeeBump \<noteq> decimal (120 * 100)"
proof -
  have "decimal (120 * 100) = ascii ''12000''"
    by (simp add: decimal_small decimal_big digit_def ascii_def)
  moreover have "ascii ''36000'' \<noteq> ascii ''12000''" by (simp add: ascii_def)
  moreover have "fb_fee demoFeeBump = ascii ''36000''" by (simp add: demoFeeBump_def)
  moreover have "SignFeeBump demoFeeBump sponsorKp \<in>
       set (snd (processRecord demoLibs rejectingServer demoTelegram demoAccount (ascii ''acct1'')
                  (ascii ''GRECV'') mainKp sponsorKp cb1 []))"
    by (simp add: demo_record_rejected)
  moreover have "fetchBaseFee rejectingServer
     [ConsoleLog (Found (ascii ''acct1'') (ascii ''10.5'')), LoadAccountCall (ascii ''GMAIN''),
      SignTransaction demoInner mainKp, FetchBaseFeeCall] = Inr 100"
    by (simp add: rejectingServer_def)
  ultimately show ?thesis by simp
qed

text \<open>
  Claim C5. For every balance record \<open>cb\<close> that is processed: when the account state is
  loaded and the library accepts the two operations, the inner transaction is built and
  signed by the main key, and it is exactly the transaction on the loaded account with the
  two operations claim \<open>cb\<close>'s identifier, then pay \<open>cb\<close>'s full amount in the native asset
  to the receiver, the fee \<open>0\<close> and the timeout 60. Every inner transaction that the
  processing of \<open>cb\<close> signs, wraps or submits has these operations, fee and timeout. In a
  pass of \<open>processAccount\<close> every such transaction claims and forwards a record that the
  ledger returned to a query, to the configured receiver address.
\<close>

theorem inner_transaction_claims_then_pays:
  "(\<forall>mainAccount.
       loadAccount srv
         (w @ [ConsoleLog (Found ident (cb_amount cb)), LoadAccountCall (kp_publicKey mainKeypair)])
         (kp_publicKey mainKeypair) = Inr mainAccount
     \<and> claimOpError L (cb_id cb) = None \<and> paymentOpError L receiver (cb_amount cb) = None \<longrightarrow>
       (\<exists>rest. snd (processRecord L srv tg a ident receiver mainKeypair sponsorKeypair cb w) =
          [ConsoleLog (Found ident (cb_amount cb)),
           LoadAccountCall (kp_publicKey mainKeypair),
           SignTransaction
             \<lparr>source = mainAccount, fee = ascii ''0'', networkPassphrase = networkPassphrase0,
              operations =
                [ClaimClaimableBalance (cb_id cb), Payment receiver Native (cb_amount cb)],
              timeout = 60, signatures = []\<rparr> mainKeypair,
           FetchBaseFeeCall] @ rest))
   \<and> (\<forall>ev \<in> set (snd (processRecord L srv tg a ident receiver mainKeypair sponsorKeypair cb w)).
      \<forall>tx. inner_of ev = Some tx \<longrightarrow>
        operations tx = [ClaimClaimableBalance (cb_id cb), Payment receiver Native (cb_amount cb)]
      \<and> fee tx = ascii ''0'' \<and> timeout tx = 60)
   \<and> (\<forall>ev \<in> set (snd (processAccount L srv tg a w)).
      \<forall>tx. inner_of ev = Some tx \<longrightarrow>
        (\<exists>receiver h pk records cb. receiverAddress a = Some receiver
          \<and> claimableBalances srv h pk 10 = Inr records \<and> cb \<in> set records
          \<and> operations tx = [ClaimClaimableBalance (cb_id cb), Payment receiver Native (cb_amount cb)]
          \<and> fee tx = ascii ''0'' \<and> timeout tx = 60))"
proof (intro conjI allI impI)
  fix mainAccount
  assume "loadAccount srv
         (w @ [ConsoleLog (Found ident (cb_amount cb)), LoadAccountCall (kp_publicKey mainKeypair)])
         (kp_publicKey mainKeypair) = Inr mainAccount
     \<and> claimOpError L (cb_id cb) = None \<and> paymentOpError L receiver (cb_amount cb) = None"
  then show "\<exists>rest. snd (processRecord L srv tg a ident receiver mainKeypair sponsorKeypair cb w) =
          [ConsoleLog (Found ident (cb_amount cb)),
           LoadAccountCall (kp_publicKey mainKeypair),
           SignTransaction
             \<lparr>source = mainAccount, fee = ascii ''0'', networkPassphrase = networkPassphrase0,
              operations =
                [ClaimClaimableBalance (cb_id cb), Payment receiver Native (cb_amount cb)],
              timeout = 60, signatures = []\<rparr> mainKeypair,
           FetchBaseFeeCall] @ rest"
    using processRecord_signs_inner [of srv w ident cb mainKeypair mainAccount L receiver tg a sponsorKeypair]
    by blast
next
  show "\<forall>ev \<in> set (snd (processRecord L srv tg a ident receiver mainKeypair sponsorKeypair cb w)).
      \<forall>tx. inner_of ev = Some tx \<longrightarrow>
        operations tx = [ClaimClaimableBalance (cb_id cb), Payment receiver Native (cb_amount cb)]
      \<and> fee tx = ascii ''0'' \<and> timeout tx = 60"
    using processRecord_shape [of _ L srv tg a ident receiver mainKeypair sponsorKeypair cb w]
    by (simp add: shape_def)
next
  let ?P = "\<lambda>ev. \<forall>tx. inner_of ev = Some tx \<longrightarrow>
        (\<exists>receiver h pk records cb. receiverAddress a = Some receiver
          \<and> claimableBalances srv h pk 10 = Inr records \<and> cb \<in> set records
          \<and> operations tx = [ClaimClaimableBalance (cb_id cb), Payment receiver Native (cb_amount cb)]
          \<and> fee tx = ascii ''0'' \<and> timeout tx = 60)"
  have "emits ?P (processAccount L srv tg a)"
  proof (rule emits_processAccount_returned)
    fix ident' r mk sk cb' h pk recs
    assume r: "receiverAddress a = Some r"
      and q: "claimableBalances srv h pk 10 = Inr recs" and m: "cb' \<in> set recs"
    have "emits (\<lambda>ev. \<forall>tx. inner_of ev = Some tx \<longrightarrow> shape r cb' tx)
        (processRecord L srv tg a ident' r mk sk cb')"
      using processRecord_shape [of _ L srv tg a ident' r mk sk cb']
      by (auto simp: emits_def)
    then show "emits ?P (processRecord L srv tg a ident' r mk sk cb')"
      by (rule emits_weaken) (use r q m in \<open>auto simp: shape_def\<close>)
  qed simp_all
  then show "\<forall>ev \<in> set (snd (processAccount L srv tg a w)). ?P ev"
    by (simp add: emits_def)
qed

text \<open>The theorem at \<open>cb1\<close>: the transaction that is signed for it.\<close>

theorem inner_transaction_claims_then_pays_witness:
  "\<exists>rest. snd (processRecord demoLibs rejectingServer demoTelegram demoAccount (ascii ''acct1'')
                 (ascii ''GRECV'') mainKp sponsorKp cb1 []) =
       [ConsoleLog (Found (ascii ''acct1'') (ascii ''10.5'')),
        LoadAccountCall (ascii ''GMAIN''),
        SignTransaction
          \<lparr>source = LedgerAccount (ascii ''GMAIN'') (ascii ''7''), fee = ascii ''0'',
           networkPassphrase = ascii ''Pi Network'',
           operations =
             [ClaimClaimableBalance (ascii ''BAL1''), Payment (ascii ''GRECV'') Native (ascii ''10.5'')],
           timeout = 60, signatures = []\<rparr> mainKp,
        FetchBaseFeeCall] @ rest"
proof -
  have h: "loadAccount rejectingServer
         ([] @ [ConsoleLog (Found (ascii ''acct1'') (cb_amount cb1)), LoadAccountCall (kp_publicKey mainKp)])
         (kp_publicKey mainKp) = Inr (LedgerAccount (ascii ''GMAIN'') (ascii ''7''))
     \<and> claimOpError demoLibs (cb_id cb1) = None
     \<and> paymentOpError demoLibs (ascii ''GRECV'') (cb_amount cb1) = None"
    by (simp add: rejectingServer_def mainKp_def demoLibs_def)
  have c: "cb_amount cb1 = ascii ''10.5''" "cb_id cb1 = ascii ''BAL1''"
    "kp_publicKey mainKp = ascii ''GMAIN''"
    by (simp_all add: cb1_def mainKp_def)
  from inner_transaction_claims_then_pays [of rejectingServer "[]" "ascii ''acct1''" cb1 mainKp
      demoLibs "ascii ''GRECV''" demoTelegram demoAccount sponsorKp] h
  have "\<exists>rest. snd (processRecord demoLibs rejectingServer demoTelegram demoAccount (ascii ''acct1'')
                 (ascii ''GRECV'') mainKp sponsorKp cb1 []) =
          [ConsoleLog (Found (ascii ''acct1'') (cb_amount cb1)),
           LoadAccountCall (kp_publicKey mainKp),
           SignTransaction
             \<lparr>source = LedgerAccount (ascii ''GMAIN'') (ascii ''7''), fee = ascii ''0'',
              networkPassphrase = networkPassphrase0,
              operations =
                [ClaimClaimableBalance (cb_id cb1), Payment (ascii ''GRECV'') Native (cb_amount cb1)],
              timeout = 60, signatures = []\<rparr> mainKp,
           FetchBaseFeeCall] @ rest"
    by blast
  then show ?thesis by (simp only: c networkPassphrase0_def)
qed

text \<open>
  Claim C6. For a mnemonic \<open>m\<close> that fails validation, the derivation throws the error of
  line 36 and does nothing else; and in a pass over any account that has \<open>m\<close> as its main or
  sponsor mnemonic no request is sent and nothing is signed: the error is thrown before
  the ledger query.
\<close>

theorem invalid_mnemonic_stops_before_network:
  assumes "\<not> validateMnemonic L m"
  shows "getPiWalletAddressFromSeed L m w = (Inl (mnemonicError m), [])
     \<and> (\<forall>a. mainMnemonic a = Some m \<or> sponsorMnemonic a = Some m \<longrightarrow>
          (\<forall>ev \<in> set (snd (processAccount L srv tg a w)). \<not> is_network ev \<and> \<not> is_signing ev))"
proof (intro conjI allI impI ballI)
  show "getPiWalletAddressFromSeed L m w = (Inl (mnemonicError m), [])"
    using assms by (rule getPi_invalid)
next
  fix a ev
  assume a: "mainMnemonic a = Some m \<or> sponsorMnemonic a = Some m"
    and ev: "ev \<in> set (snd (processAccount L srv tg a w))"
  show "\<not> is_network ev"
    using network_needs_valid_mnemonics [OF ev] a assms by auto
  show "\<not> is_signing ev"
    using network_needs_valid_mnemonics [OF ev] a assms by auto
qed

text \<open>The theorem at an invalid seed phrase and an account that has it as its main mnemonic.\<close>

theorem invalid_mnemonic_stops_before_network_witness:
  "\<not> validateMnemonic demoLibs demoBad
   \<and> getPiWalletAddressFromSeed demoLibs demoBad [] = (Inl (mnemonicError demoBad), [])
   \<and> list_all (\<lambda>ev. \<not> is_network ev \<and> \<not> is_signing ev)
       (snd (processAccount demoLibs rejectingServer demoTelegram badSeedAccount []))"
proof -
  have "mainMnemonic badSeedAccount = Some demoBad" by (simp add: badSeedAccount_def)
  with invalid_mnemonic_stops_before_network [OF demo_valid(3), of "[]" rejectingServer demoTelegram]
    demo_valid(3)
  show ?thesis by (simp add: list_all_iff)
qed

text \<open>
  Claim C8. When the \<open>try\<close> block of a pass throws \<open>e\<close>, the pass returns normally with one
  more error line: the rate-limited line if \<open>e\<close> carries a response with status 429; the
  failure line with the result codes if \<open>e\<close> carries a response with another status whose
  \<open>data.extras.result_codes\<close> is there; and the failure line with the message of \<open>e\<close> if
  \<open>e\<close> carries no response, or one with another status in which \<open>data\<close>, \<open>extras\<close> or
  \<open>result_codes\<close> is missing.
\<close>

theorem caught_failure_is_classified:
  assumes ident: "accountIdentifier a = Inr ident"
    and cfg: "mainMnemonic a = Some m" "m \<noteq> []" "sponsorMnemonic a = Some s" "s \<noteq> []"
      "receiverAddress a = Some r" "r \<noteq> []"
    and caught: "processAccount_try L srv tg a ident m s r (w @ [ConsoleLog (Processing ident)])
        = (Inl e, es)"
  shows "\<exists>line. processAccount L srv tg a w =
           (Inr (), ConsoleLog (Processing ident) # es @ [ConsoleError line])
     \<and> ((\<exists>resp. response e = Some resp \<and> status resp = 429) \<longrightarrow> line = RateLimited ident)
     \<and> (\<forall>resp d x c. response e = Some resp \<and> status resp \<noteq> 429 \<and> data resp = Some d
            \<and> extras d = Some x \<and> result_codes x = Some c \<longrightarrow>
          line = ProcessingFailed ident (Codes c))
     \<and> (response e = None
          \<or> (\<exists>resp. response e = Some resp \<and> status resp \<noteq> 429
                \<and> (data resp = None
                    \<or> (\<exists>d. data resp = Some d
                          \<and> (extras d = None \<or> (\<exists>x. extras d = Some x \<and> result_codes x = None)))))
          \<longrightarrow> line = ProcessingFailed ident (Msg (message e)))"
  using caught
  by (cases "response e")
     (auto simp: processAccount_complete [OF ident cfg] try_catch_def processAccount_catch_apply
        error_result_codes_def)

text \<open>
  The theorem at a rejected submission (result codes), at a throttled query (status 429)
  and at a gateway time-out (status 504, no result codes: the message).
\<close>

theorem caught_failure_is_classified_witness:
  "last (snd (processAccount demoLibs rejectingServer demoTelegram demoAccount [])) =
     ConsoleError (ProcessingFailed (ascii ''acct1'') (Codes (ResultCodes (ascii ''tx_failed'') [])))
   \<and> last (snd (processAccount demoLibs busyServer demoTelegram demoAccount [])) =
     ConsoleError (RateLimited (ascii ''acct1''))
   \<and> last (snd (processAccount demoLibs gatewayServer demoTelegram demoAccount [])) =
     ConsoleError (ProcessingFailed (ascii ''acct1'')
       (Msg (ascii ''Request failed with status code 504'')))"
proof -
  have r: "ascii ''GRECV'' \<noteq> []" by (simp add: ascii_def)
  have cfg: "mainMnemonic demoAccount = Some demoMain"
    "sponsorMnemonic demoAccount = Some demoSponsor"
    "receiverAddress demoAccount = Some (ascii ''GRECV'')"
    by (simp_all add: demoAccount_def)
  note cls = caught_failure_is_classified [OF demo_identifiers(1) cfg(1) demo_strings_distinct(4)
      cfg(2) demo_strings_distinct(5) cfg(3) r]
  have "response rejection = Some (HttpResponse 400
          (Some (ResponseData (Some (Extras (Some (ResultCodes (ascii ''tx_failed'') [])))))))"
    by (simp add: rejection_def)
  with cls [OF demo_try_rejected]
  have a: "last (snd (processAccount demoLibs rejectingServer demoTelegram demoAccount [])) =
     ConsoleError (ProcessingFailed (ascii ''acct1'') (Codes (ResultCodes (ascii ''tx_failed'') [])))"
    by auto
  have "claimableBalances busyServer
      (([] @ [ConsoleLog (Processing (ascii ''acct1''))]) @ [ClaimableBalancesCall (ascii ''GMAIN'') 10])
      (ascii ''GMAIN'') 10 = Inl throttled"
    by (simp add: busyServer_def)
  from cls [OF demo_try_query_fails [OF this]]
  have b: "last (snd (processAccount demoLibs busyServer demoTelegram demoAccount [])) =
     ConsoleError (RateLimited (ascii ''acct1''))"
    by (auto simp: throttled_def)
  have "claimableBalances gatewayServer
      (([] @ [ConsoleLog (Processing (ascii ''acct1''))]) @ [ClaimableBalancesCall (ascii ''GMAIN'') 10])
      (ascii ''GMAIN'') 10 = Inl gatewayTimeout"
    by (simp add: gatewayServer_def)
  from cls [OF demo_try_query_fails [OF this]]
  have c: "last (snd (processAccount demoLibs gatewayServer demoTelegram demoAccount [])) =
     ConsoleError (ProcessingFailed (ascii ''acct1'')
       (Msg (ascii ''Request failed with status code 504'')))"
    by (auto simp: gatewayTimeout_def)
  from a b c show ?thesis by simp
qed



text \<open>
  Claim C10. For an account with no name and no main mnemonic, \<open>processAccount\<close> throws
  the \<open>TypeError\<close> of line 50 before anything is logged or checked; when such an account
  is in the configuration, the loop over the accounts throws it too, and the program ends
  with the fatal line of line 158.
\<close>

theorem missing_mnemonic_and_name_is_fatal:
  assumes "\<not> truthy (name a)" and "mainMnemonic a = None"
  shows "processAccount L srv tg a w = (Inl typeError, [])
     \<and> (a \<in> set accounts \<longrightarrow>
          (\<forall>w. fst (for_of (processAccount L srv tg) accounts w) = Inl typeError)
        \<and> (\<exists>es. program L srv tg (Inr (Some accounts)) = Some (es @ [ConsoleError (Fatal typeError)])))"
  using processAccount_typeError [OF assms] for_of_typeError [OF assms] program_typeError [OF assms]
  by blast

text \<open>The theorem at \<open>brokenAccount\<close>, configured between two valid accounts.\<close>

theorem missing_mnemonic_and_name_is_fatal_witness:
  "processAccount demoLibs rejectingServer demoTelegram brokenAccount [] = (Inl typeError, [])
   \<and> fst (for_of (processAccount demoLibs rejectingServer demoTelegram)
            [demoAccount, brokenAccount, demoAccount] []) = Inl typeError
   \<and> (\<exists>es. program demoLibs rejectingServer demoTelegram
              (Inr (Some [demoAccount, brokenAccount, demoAccount]))
            = Some (es @ [ConsoleError (Fatal typeError)]))"
proof -
  have a: "\<not> truthy (name brokenAccount)" "mainMnemonic brokenAccount = None"
    by (simp_all add: brokenAccount_def truthy_def)
  have b: "brokenAccount \<in> set [demoAccount, brokenAccount, demoAccount]" by simp
  show ?thesis
    using missing_mnemonic_and_name_is_fatal [OF a, of demoLibs rejectingServer demoTelegram "[]"
        "[demoAccount, brokenAccount, demoAccount]"] b
    by blast
qed

end
